theory Spec2Isabelle
  imports Complex_Main
begin

section \<open>The airtime graph component (src/components/result/Graph.tsx)\<close>

text \<open>
  The component keeps five pieces of React state (the two axis flags, the revision
  counter, the series list and the Plotly layout) and changes them from \<open>updateGraph\<close>
  and from three effects. Each of them is modelled as a function from the state before
  to the state after. JavaScript numbers are \<open>int\<close> where the code counts bytes and
  \<open>real\<close> where it measures (airtime, dwell time, pixels, axis coordinates).
\<close>

subsection \<open>Objects with an identity\<close>

text \<open>
  \<open>region !== prevRegion\<close> compares two object references. A region prop is therefore an
  object: its address and its (immutable) contents. Strict inequality of two objects looks
  at the address only.
\<close>

type_synonym addr = nat

datatype 'a obj = Obj (addrOf: addr) (valOf: 'a)

subsection \<open>Types of ../../utils/types and of the data rate catalog\<close>

text \<open>
  Modelled from the spec: the declarations of \<open>Region\<close>, \<open>CodingRate\<close>,
  \<open>SpreadingFactor\<close>, \<open>Bandwidth\<close>, \<open>LoraMode\<close> and of a data rate, which are missing
  from the sources. The records hold the fields Graph.tsx reads, typed as the spec's data
  model has them: the maximum dwell time is optional, a data rate has a value label, a
  colour and a highlight classification. A coding rate is a string (\<open>!codingRate\<close> holds
  for the missing and for the empty one); the other three are only handed on to
  \<open>calculateAirtime\<close>.
\<close>

type_synonym CodingRate = string
type_synonym SpreadingFactor = nat
type_synonym Bandwidth = nat
type_synonym LoraMode = string

record Region =
  spreadingFactors :: "SpreadingFactor list"
  bandwidths :: "Bandwidth list"
  loraMode :: LoraMode
  maxMacPayloadSize :: int
  maxDwellTime :: "real option"

record DataRate =
  dr_value :: string
  dr_color :: string
  dr_highlight :: string

text \<open>
  The three functions Graph.tsx imports from ../../utils: they are parameters of the
  model. \<open>rangeFn\<close> is \<open>range\<close> of ../../utils/range.
\<close>

record externals =
  calculateAirtime :: "int \<Rightarrow> SpreadingFactor option \<Rightarrow> Bandwidth option \<Rightarrow> CodingRate
    \<Rightarrow> LoraMode \<Rightarrow> nat \<Rightarrow> bool \<Rightarrow> bool \<Rightarrow> bool \<Rightarrow> real"
  getDataRates :: "Region \<Rightarrow> DataRate list"
  rangeFn :: "int \<Rightarrow> int \<Rightarrow> int \<Rightarrow> int list"

subsection \<open>Series and layout\<close>

text \<open>\<open>visible?: boolean | 'legendonly'\<close>\<close>

datatype Visible = Shown bool | Legendonly

record PlotData =
  pd_name :: string
  pd_x :: "int list"
  pd_y :: "real list"
  pd_mode :: string
  pd_line_color :: string
  pd_line_width :: nat
  pd_hovertemplate :: string
  pd_visible :: "Visible option"
  pd_connectgaps :: bool

text \<open>
  \<open>Partial<Layout>\<close>: every property may be missing. Only the properties the effects
  write or read are kept (\<open>autosize\<close>, \<open>margin\<close>, \<open>dragmode\<close> and \<open>legend\<close> are set once
  and never touched again). An axis range is a two element array.
\<close>

record XAxis =
  xaxis_autorange :: "bool option"
  xaxis_fixedrange :: "bool option"
  xaxis_range :: "(real \<times> real) option"
  xaxis_title :: "string option"
  xaxis_ticks :: "string option"

record YAxis =
  yaxis_type :: "string option"
  yaxis_title :: "string option"
  yaxis_ticks :: "string option"
  yaxis_autorange :: "bool option"
  yaxis_fixedrange :: "bool option"
  yaxis_rangemode :: "string option"
  yaxis_separatethousands :: "bool option"

record Shape =
  shape_type :: "string option"
  shape_x0 :: "real option"
  shape_y0 :: "real option"
  shape_x1 :: "real option"
  shape_y1 :: "real option"
  shape_xref :: "string option"
  shape_opacity :: "real option"
  shape_line_color :: "string option"
  shape_line_width :: "real option"
  shape_line_dash :: "string option"

record Annotation =
  ann_text :: "string option"
  ann_x :: "real option"
  ann_xref :: "string option"
  ann_xanchor :: "string option"
  ann_y :: "real option"
  ann_yanchor :: "string option"
  ann_showarrow :: "bool option"
  ann_font_color :: "string option"
  ann_opacity :: "real option"

record Layout =
  xaxis :: "XAxis option"
  yaxis :: "YAxis option"
  shapes :: "Shape list option"
  annotations :: "Annotation list option"

subsection \<open>lodash merge on layouts\<close>

text \<open>
  \<open>merge(object, source)\<close> of lodash: a property the source leaves undefined keeps the
  object's value, a plain value of the source replaces it, objects are merged property
  by property and arrays index by index.
\<close>

definition mergeVal :: "'a option \<Rightarrow> 'a option \<Rightarrow> 'a option" where
  "mergeVal cur upd = (case upd of None \<Rightarrow> cur | Some u \<Rightarrow> Some u)"

definition mergeObj :: "('a \<Rightarrow> 'a \<Rightarrow> 'a) \<Rightarrow> 'a option \<Rightarrow> 'a option \<Rightarrow> 'a option" where
  "mergeObj f cur upd =
     (case upd of
        None \<Rightarrow> cur
      | Some u \<Rightarrow> (case cur of None \<Rightarrow> Some u | Some c \<Rightarrow> Some (f c u)))"

fun mergeArray :: "('a \<Rightarrow> 'a \<Rightarrow> 'a) \<Rightarrow> 'a list \<Rightarrow> 'a list \<Rightarrow> 'a list" where
  "mergeArray f [] us = us"
| "mergeArray f cs [] = cs"
| "mergeArray f (c # cs) (u # us) = f c u # mergeArray f cs us"

definition mergeXAxis :: "XAxis \<Rightarrow> XAxis \<Rightarrow> XAxis" where
  "mergeXAxis c u =
     \<lparr> xaxis_autorange = mergeVal (xaxis_autorange c) (xaxis_autorange u),
       xaxis_fixedrange = mergeVal (xaxis_fixedrange c) (xaxis_fixedrange u),
       xaxis_range = mergeVal (xaxis_range c) (xaxis_range u),
       xaxis_title = mergeVal (xaxis_title c) (xaxis_title u),
       xaxis_ticks = mergeVal (xaxis_ticks c) (xaxis_ticks u) \<rparr>"

definition mergeYAxis :: "YAxis \<Rightarrow> YAxis \<Rightarrow> YAxis" where
  "mergeYAxis c u =
     \<lparr> yaxis_type = mergeVal (yaxis_type c) (yaxis_type u),
       yaxis_title = mergeVal (yaxis_title c) (yaxis_title u),
       yaxis_ticks = mergeVal (yaxis_ticks c) (yaxis_ticks u),
       yaxis_autorange = mergeVal (yaxis_autorange c) (yaxis_autorange u),
       yaxis_fixedrange = mergeVal (yaxis_fixedrange c) (yaxis_fixedrange u),
       yaxis_rangemode = mergeVal (yaxis_rangemode c) (yaxis_rangemode u),
       yaxis_separatethousands =
         mergeVal (yaxis_separatethousands c) (yaxis_separatethousands u) \<rparr>"

definition mergeShape :: "Shape \<Rightarrow> Shape \<Rightarrow> Shape" where
  "mergeShape c u =
     \<lparr> shape_type = mergeVal (shape_type c) (shape_type u),
       shape_x0 = mergeVal (shape_x0 c) (shape_x0 u),
       shape_y0 = mergeVal (shape_y0 c) (shape_y0 u),
       shape_x1 = mergeVal (shape_x1 c) (shape_x1 u),
       shape_y1 = mergeVal (shape_y1 c) (shape_y1 u),
       shape_xref = mergeVal (shape_xref c) (shape_xref u),
       shape_opacity = mergeVal (shape_opacity c) (shape_opacity u),
       shape_line_color = mergeVal (shape_line_color c) (shape_line_color u),
       shape_line_width = mergeVal (shape_line_width c) (shape_line_width u),
       shape_line_dash = mergeVal (shape_line_dash c) (shape_line_dash u) \<rparr>"

definition mergeAnnotation :: "Annotation \<Rightarrow> Annotation \<Rightarrow> Annotation" where
  "mergeAnnotation c u =
     \<lparr> ann_text = mergeVal (ann_text c) (ann_text u),
       ann_x = mergeVal (ann_x c) (ann_x u),
       ann_xref = mergeVal (ann_xref c) (ann_xref u),
       ann_xanchor = mergeVal (ann_xanchor c) (ann_xanchor u),
       ann_y = mergeVal (ann_y c) (ann_y u),
       ann_yanchor = mergeVal (ann_yanchor c) (ann_yanchor u),
       ann_showarrow = mergeVal (ann_showarrow c) (ann_showarrow u),
       ann_font_color = mergeVal (ann_font_color c) (ann_font_color u),
       ann_opacity = mergeVal (ann_opacity c) (ann_opacity u) \<rparr>"

definition mergeLayout :: "Layout \<Rightarrow> Layout \<Rightarrow> Layout" where
  "mergeLayout c u =
     \<lparr> xaxis = mergeObj mergeXAxis (xaxis c) (xaxis u),
       yaxis = mergeObj mergeYAxis (yaxis c) (yaxis u),
       shapes = mergeObj (mergeArray mergeShape) (shapes c) (shapes u),
       annotations = mergeObj (mergeArray mergeAnnotation) (annotations c) (annotations u) \<rparr>"

subsection \<open>The component's state\<close>

text \<open>
  \<open>layout\<close> is the reference React holds; \<open>heap\<close> gives the layout object behind every
  reference and \<open>nextAddr\<close> is the next unused one. The layout is the one piece of state
  the code both replaces and changes in place, and the renderer holds the same reference.
\<close>

record graph_state =
  xAxisFitFullRange :: bool
  yAxisLogarithmic :: bool
  revision :: nat
  data :: "PlotData list"
  layout :: addr
  heap :: "addr \<Rightarrow> Layout"
  nextAddr :: addr

definition currentLayout :: "graph_state \<Rightarrow> Layout" where
  "currentLayout s = heap s (layout s)"

definition emptyXAxis :: XAxis where
  "emptyXAxis = \<lparr> xaxis_autorange = None, xaxis_fixedrange = None, xaxis_range = None,
     xaxis_title = None, xaxis_ticks = None \<rparr>"

definition emptyYAxis :: YAxis where
  "emptyYAxis = \<lparr> yaxis_type = None, yaxis_title = None, yaxis_ticks = None,
     yaxis_autorange = None, yaxis_fixedrange = None, yaxis_rangemode = None,
     yaxis_separatethousands = None \<rparr>"

definition emptyLayout :: Layout where
  "emptyLayout = \<lparr> xaxis = None, yaxis = None, shapes = None, annotations = None \<rparr>"

text \<open>The arguments of the five \<open>useState\<close> calls (lines 27 to 55).\<close>

definition initialLayout :: Layout where
  "initialLayout =
     \<lparr> xaxis = Some \<lparr> xaxis_autorange = Some False, xaxis_fixedrange = None,
         xaxis_range = Some (0, 100), xaxis_title = Some ''PHYPayload Size (bytes)'',
         xaxis_ticks = Some ''outside'' \<rparr>,
       yaxis = Some \<lparr> yaxis_type = None, yaxis_title = None, yaxis_ticks = Some ''outside'',
         yaxis_autorange = Some True, yaxis_fixedrange = Some True,
         yaxis_rangemode = Some ''tozero'', yaxis_separatethousands = Some True \<rparr>,
       shapes = None,
       annotations = None \<rparr>"

definition initialState :: graph_state where
  "initialState =
     \<lparr> xAxisFitFullRange = True, yAxisLogarithmic = False, revision = 0, data = [],
       layout = 0, heap = (\<lambda>_. initialLayout), nextAddr = 1 \<rparr>"

subsection \<open>Helpers of the component that Graph.tsx calls\<close>

text \<open>
  Modelled from the spec: \<open>triggerRender\<close>, whose body is missing from Graph.tsx. The spec
  has every mutation that changes the rendered output increment the shared revision
  counter; \<open>updateGraph\<close> does it with \<open>setRevision((prev) => prev + 1)\<close>.
\<close>

definition triggerRender :: "graph_state \<Rightarrow> graph_state" where
  "triggerRender s = s\<lparr>revision := revision s + 1\<rparr>"

text \<open>
  Modelled from the spec: \<open>mergeAndTriggerRender\<close>, whose body is missing from Graph.tsx.
  It merges the update into the current layout (lodash \<open>merge\<close>) and triggers a render;
  the spec has every such change produce a new layout value, so the merged layout is a new
  object and the current one is left as it was. The function is given the state and the
  update computed from the current layout, and stands for
  \<open>setLayout((current) => mergeAndTriggerRender(current, update))\<close>.
\<close>

definition mergeAndTriggerRender :: "graph_state \<Rightarrow> Layout \<Rightarrow> graph_state" where
  "mergeAndTriggerRender s upd =
     (let s1 = triggerRender s;
          a = nextAddr s1
      in s1\<lparr>layout := a,
            heap := (heap s1)(a := mergeLayout (currentLayout s1) upd),
            nextAddr := a + 1\<rparr>)"

text \<open>
  Modelled from the spec: \<open>toLogarithmic\<close>, whose body is missing from Graph.tsx. In the
  spec's words: when switching to logarithmic the value is replaced by its base 10
  logarithm, when switching to linear the raw (untransformed) value is used. The logarithm
  is the real one, so the model says nothing for values that are not positive.
\<close>

definition toLogarithmic :: "bool \<Rightarrow> real \<Rightarrow> real" where
  "toLogarithmic logarithmic v = (if logarithmic then log 10 v else v)"

subsection \<open>updateGraph (lines 62 to 113)\<close>

text \<open>
  \<open>prevRegion\<close> and \<open>prevCodingRate\<close> are what \<open>usePrevious\<close> returned in this render:
  nothing in the first render, the props of the render before otherwise.
\<close>

definition resetVisibleTraces ::
  "CodingRate \<Rightarrow> CodingRate option \<Rightarrow> Region obj \<Rightarrow> Region obj option \<Rightarrow> bool" where
  "resetVisibleTraces codingRate prevCodingRate region prevRegion =
     (Some codingRate \<noteq> prevCodingRate \<or> Some (addrOf region) \<noteq> map_option addrOf prevRegion)"

definition configured :: "DataRate \<Rightarrow> Visible" where
  "configured dr = (if dr_highlight dr = ''low'' then Legendonly else Shown True)"

text \<open>\<open>currentData[idx]?.visible\<close>\<close>

definition visibleAt :: "PlotData list \<Rightarrow> nat \<Rightarrow> Visible option" where
  "visibleAt currentData idx =
     (if idx < length currentData then pd_visible (currentData ! idx) else None)"

definition series ::
  "externals \<Rightarrow> PlotData list \<Rightarrow> bool \<Rightarrow> CodingRate \<Rightarrow> SpreadingFactor option
    \<Rightarrow> Bandwidth option \<Rightarrow> LoraMode \<Rightarrow> int \<Rightarrow> int \<Rightarrow> nat \<times> DataRate \<Rightarrow> PlotData" where
  "series ext currentData reset codingRate spreadingFactor bandwidth mode overhead
      maxPayloadSize p =
     (case p of (idx, dr) \<Rightarrow>
        let current = visibleAt currentData idx;
            visible = (if reset then configured dr
                       else (case current of Some v \<Rightarrow> v | None \<Rightarrow> configured dr))
        in \<lparr> pd_name = ''DR'' @ dr_value dr,
             pd_x = rangeFn ext 0 maxPayloadSize 10,
             pd_y = map (\<lambda>x. calculateAirtime ext (x + overhead) spreadingFactor bandwidth
                          codingRate mode 8 True False True)
                      (rangeFn ext 0 maxPayloadSize 10),
             pd_mode = ''lines'',
             pd_line_color = dr_color dr,
             pd_line_width = (if dr_highlight dr = ''high'' then 3 else 1),
             pd_hovertemplate = ''PHYPayload: %{x}B<br>Airtime: %{y}ms'',
             pd_visible = Some visible,
             pd_connectgaps = True \<rparr>)"

definition updateGraph ::
  "externals \<Rightarrow> Region obj option \<Rightarrow> CodingRate option \<Rightarrow> graph_state \<Rightarrow> Region obj
    \<Rightarrow> CodingRate \<Rightarrow> SpreadingFactor option \<Rightarrow> Bandwidth option \<Rightarrow> LoraMode \<Rightarrow> int \<Rightarrow> int
    \<Rightarrow> graph_state" where
  "updateGraph ext prevRegion prevCodingRate s region codingRate spreadingFactor bandwidth
      mode overhead maxPayloadSize =
     (if maxPayloadSize > 0 then
        let currentData = data s;
            dataRates = getDataRates ext (valOf region);
            newData = map (series ext currentData
                             (resetVisibleTraces codingRate prevCodingRate region prevRegion)
                             codingRate spreadingFactor bandwidth mode overhead
                             maxPayloadSize)
                          (enumerate 0 dataRates)
        in (s\<lparr>data := newData\<rparr>)\<lparr>revision := revision s + 1\<rparr>
      else s)"

subsection \<open>The effect on region, prevRegion, codingRate and selectedPacketSize (lines 115 to 179)\<close>

record GraphProps =
  p_region :: "Region obj"
  p_selectedPacketSize :: int
  p_codingRate :: "CodingRate option"

text \<open>JavaScript truthiness of an optional string and of an optional number.\<close>

definition truthyString :: "string option \<Rightarrow> bool" where
  "truthyString c = (case c of None \<Rightarrow> False | Some v \<Rightarrow> v \<noteq> [])"

definition truthyNumber :: "real option \<Rightarrow> bool" where
  "truthyNumber n = (case n of None \<Rightarrow> False | Some v \<Rightarrow> v \<noteq> 0)"

text \<open>\<open>xs[0]\<close>, undefined on the empty array.\<close>

definition first :: "'a list \<Rightarrow> 'a option" where
  "first xs = (case xs of [] \<Rightarrow> None | v # _ \<Rightarrow> Some v)"

text \<open>The update of lines 133 to 169, computed from the current layout.\<close>

definition dwellShape :: "real \<Rightarrow> Shape" where
  "dwellShape dwell =
     \<lparr> shape_type = Some ''line'', shape_x0 = Some 0, shape_y0 = Some dwell,
       shape_x1 = Some 1, shape_y1 = Some dwell, shape_xref = Some ''paper'',
       shape_opacity = Some (2 / 10), shape_line_color = Some ''red'',
       shape_line_width = Some 2, shape_line_dash = Some ''dashdot'' \<rparr>"

text \<open>\<open>current.yaxis?.type\<close> and \<open>current.xaxis?.range\<close>\<close>

definition yaxisTypeOf :: "Layout \<Rightarrow> string option" where
  "yaxisTypeOf current = (case yaxis current of None \<Rightarrow> None | Some ya \<Rightarrow> yaxis_type ya)"

definition xaxisRangeOf :: "Layout \<Rightarrow> (real \<times> real) option" where
  "xaxisRangeOf current = (case xaxis current of None \<Rightarrow> None | Some xa \<Rightarrow> xaxis_range xa)"

definition dwellAnnotation :: "Layout \<Rightarrow> real \<Rightarrow> Annotation" where
  "dwellAnnotation current dwell =
     \<lparr> ann_text = Some ''max dwell time'', ann_x = Some 1, ann_xref = Some ''paper'',
       ann_xanchor = Some ''right'',
       ann_y = Some (if yaxisTypeOf current = Some ''log''
                     then toLogarithmic True dwell else dwell),
       ann_yanchor = Some ''bottom'', ann_showarrow = Some False,
       ann_font_color = Some ''red'', ann_opacity = Some (4 / 10) \<rparr>"

definition dwellUpdate :: "Layout \<Rightarrow> real \<Rightarrow> Layout" where
  "dwellUpdate current dwell =
     \<lparr> xaxis = None, yaxis = None, shapes = Some [dwellShape dwell],
       annotations = Some [dwellAnnotation current dwell] \<rparr>"

text \<open>
  Lines 172 to 177: the two properties are deleted from the current layout object itself,
  and that same object is returned to \<open>setLayout\<close>.
\<close>

definition deleteOverlay :: "graph_state \<Rightarrow> graph_state" where
  "deleteOverlay s =
     triggerRender
       (s\<lparr>heap := (heap s)(layout s := (currentLayout s)\<lparr>shapes := None, annotations := None\<rparr>)\<rparr>)"

definition prevMaxDwellTime :: "Region obj option \<Rightarrow> real option" where
  "prevMaxDwellTime prevRegion =
     (case prevRegion of None \<Rightarrow> None | Some r \<Rightarrow> maxDwellTime (valOf r))"

definition configEffect ::
  "externals \<Rightarrow> Region obj option \<Rightarrow> CodingRate option \<Rightarrow> graph_state \<Rightarrow> GraphProps
    \<Rightarrow> graph_state" where
  "configEffect ext prevRegion prevCodingRate s props =
     (if \<not> truthyString (p_codingRate props) then s
      else
        let r = valOf (p_region props);
            s1 = updateGraph ext prevRegion prevCodingRate s (p_region props)
                   (the (p_codingRate props)) (first (spreadingFactors r)) (first (bandwidths r))
                   (loraMode r) 5 (maxMacPayloadSize r + 5)
        in if truthyNumber (maxDwellTime r)
           then mergeAndTriggerRender s1 (dwellUpdate (currentLayout s1) (the (maxDwellTime r)))
           else if truthyNumber (prevMaxDwellTime prevRegion) then deleteOverlay s1
           else s1)"

text \<open>
  The dependency array \<open>[region, prevRegion, codingRate, selectedPacketSize]\<close>: React runs
  the effect again when one entry is not the same as in the last run (objects by
  reference, strings and numbers by value).
\<close>

type_synonym configDeps = "addr \<times> addr option \<times> CodingRate option \<times> int"

definition configEffectDeps :: "GraphProps \<Rightarrow> Region obj option \<Rightarrow> configDeps" where
  "configEffectDeps props prevRegion =
     (addrOf (p_region props), map_option addrOf prevRegion, p_codingRate props,
      p_selectedPacketSize props)"

definition runConfigEffect ::
  "externals \<Rightarrow> configDeps \<Rightarrow> Region obj option \<Rightarrow> CodingRate option \<Rightarrow> graph_state
    \<Rightarrow> GraphProps \<Rightarrow> graph_state" where
  "runConfigEffect ext lastDeps prevRegion prevCodingRate s props =
     (if configEffectDeps props prevRegion \<noteq> lastDeps
      then configEffect ext prevRegion prevCodingRate s props
      else s)"

subsection \<open>The effect on yAxisLogarithmic (lines 181 to 193)\<close>

text \<open>
  The update holds, for every annotation of the current layout, an object with the one
  property \<open>y\<close>. An annotation without \<open>y\<close> keeps none.
\<close>

definition onlyY :: "real option \<Rightarrow> Annotation" where
  "onlyY v =
     \<lparr> ann_text = None, ann_x = None, ann_xref = None, ann_xanchor = None, ann_y = v,
       ann_yanchor = None, ann_showarrow = None, ann_font_color = None, ann_opacity = None \<rparr>"

definition yAxisUpdate :: "bool \<Rightarrow> Layout \<Rightarrow> Layout" where
  "yAxisUpdate logarithmic current =
     \<lparr> xaxis = None,
       yaxis = Some (emptyYAxis
         \<lparr> yaxis_type := Some (if logarithmic then ''log'' else ''linear''),
           yaxis_title := Some (if logarithmic then ''airtime (ms, logarithmic)''
                                else ''airtime (ms)'') \<rparr>),
       shapes = None,
       annotations =
         map_option (map (\<lambda>annotation.
             onlyY (map_option (toLogarithmic logarithmic) (ann_y annotation))))
           (annotations current) \<rparr>"

definition yAxisEffect :: "graph_state \<Rightarrow> graph_state" where
  "yAxisEffect s =
     mergeAndTriggerRender s (yAxisUpdate (yAxisLogarithmic s) (currentLayout s))"

text \<open>
  Modelled from the spec: \<open>toggleScale\<close>. The user's toggle flips the vertical mode; the
  effect then runs, since its dependency changed.
\<close>

definition toggleScale :: "graph_state \<Rightarrow> graph_state" where
  "toggleScale s = yAxisEffect (s\<lparr>yAxisLogarithmic := \<not> yAxisLogarithmic s\<rparr>)"

subsection \<open>The effect on windowWidth and xAxisFitFullRange (lines 195 to 212)\<close>

definition xaxisFixedScaleRange :: "real \<Rightarrow> real \<times> real" where
  "xaxisFixedScaleRange windowWidth = (0, (windowWidth - 312) / 6)"

definition xAxisUpdate :: "bool \<Rightarrow> real \<Rightarrow> Layout \<Rightarrow> Layout" where
  "xAxisUpdate fitFullRange windowWidth current =
     (let xaxisRange =
            (if fitFullRange
             then (case xaxisRangeOf current of
                     Some r \<Rightarrow> r
                   | None \<Rightarrow> xaxisFixedScaleRange windowWidth)
             else xaxisFixedScaleRange windowWidth)
      in \<lparr> xaxis = Some (emptyXAxis
             \<lparr> xaxis_autorange := Some fitFullRange,
               xaxis_fixedrange := Some fitFullRange,
               xaxis_range := Some xaxisRange \<rparr>),
           yaxis = None, shapes = None, annotations = None \<rparr>)"

definition xAxisEffect :: "real \<Rightarrow> graph_state \<Rightarrow> graph_state" where
  "xAxisEffect windowWidth s =
     mergeAndTriggerRender s (xAxisUpdate (xAxisFitFullRange s) windowWidth (currentLayout s))"

text \<open>
  The dependency array \<open>[windowWidth, xAxisFitFullRange]\<close>; \<open>windowWidth\<close> is what the
  hook \<open>useWindowWidth\<close> returned in this render.
\<close>

definition runXAxisEffect :: "real \<times> bool \<Rightarrow> real \<Rightarrow> graph_state \<Rightarrow> graph_state" where
  "runXAxisEffect lastDeps windowWidth s =
     (if (windowWidth, xAxisFitFullRange s) \<noteq> lastDeps then xAxisEffect windowWidth s else s)"

text \<open>
  Modelled from the spec: \<open>toggleFitFullRange\<close>, the other button's handler, whose body is
  missing from Graph.tsx. The user's toggle flips the horizontal mode; the effect then runs,
  since its dependency changed.
\<close>

definition toggleFitFullRange :: "real \<Rightarrow> graph_state \<Rightarrow> graph_state" where
  "toggleFitFullRange windowWidth s =
     xAxisEffect windowWidth (s\<lparr>xAxisFitFullRange := \<not> xAxisFitFullRange s\<rparr>)"

subsection \<open>Renders\<close>

text \<open>
  \<open>usePrevious\<close> (its body is missing from Graph.tsx) hands every render the value the prop
  had in the render before. \<open>prevRegion\<close> is one of the first effect's dependencies, so a
  render in which only \<open>prevRegion\<close> has caught up with \<open>region\<close> runs the effect once more.

  After the first render the three effects run in the order they are written, on the
  initial state; \<open>usePrevious\<close> has nothing to return yet. They change the state, so the
  component renders again, with \<open>prevRegion\<close> now the region, and the first effect runs a
  second time.
\<close>

definition mount :: "externals \<Rightarrow> GraphProps \<Rightarrow> real \<Rightarrow> graph_state" where
  "mount ext props windowWidth =
     (let firstCommit =
            xAxisEffect windowWidth (yAxisEffect (configEffect ext None None initialState props))
      in runConfigEffect ext (configEffectDeps props None) (Some (p_region props))
           (p_codingRate props) firstCommit props)"

text \<open>
  The props change from \<open>old\<close> to \<open>new\<close> in a settled component (the effect's last run was
  for \<open>old\<close>, with \<open>prevRegion\<close> the region of \<open>old\<close>). In the render with the new props
  \<open>usePrevious\<close> still returns those of \<open>old\<close>; in the render after it returns those of
  \<open>new\<close>. The effect runs in each of the two renders whose dependencies are not those of
  its last run.
\<close>

definition propsChange ::
  "externals \<Rightarrow> graph_state \<Rightarrow> GraphProps \<Rightarrow> GraphProps \<Rightarrow> graph_state" where
  "propsChange ext s old new =
     (let afterFirst =
            runConfigEffect ext (configEffectDeps old (Some (p_region old)))
              (Some (p_region old)) (p_codingRate old) s new
      in runConfigEffect ext (configEffectDeps new (Some (p_region old)))
           (Some (p_region new)) (p_codingRate new) afterFirst new)"

subsection \<open>What the component reacts to\<close>

text \<open>
  A change of the props, the two buttons, and a change of the window width from \<open>w0\<close> to
  \<open>w\<close>.
\<close>

datatype event =
    PropsChanged GraphProps GraphProps
  | ScaleToggled
  | FitFullRangeToggled real
  | Resized real real

fun react :: "externals \<Rightarrow> graph_state \<Rightarrow> event \<Rightarrow> graph_state" where
  "react ext s (PropsChanged old new) = propsChange ext s old new"
| "react ext s ScaleToggled = toggleScale s"
| "react ext s (FitFullRangeToggled w) = toggleFitFullRange w s"
| "react ext s (Resized w0 w) = runXAxisEffect (w0, xAxisFitFullRange s) w s"

subsection \<open>Example inputs\<close>

text \<open>
  A catalog of three data rates, a payload based stand-in for the airtime formula, a
  generator of every \<open>step\<close>-th integer below \<open>stop\<close>, and two regions that differ in
  the dwell time only.
\<close>

definition exampleCatalog :: "DataRate list" where
  "exampleCatalog =
     [\<lparr> dr_value = ''0'', dr_color = ''blue'', dr_highlight = ''low'' \<rparr>,
      \<lparr> dr_value = ''1'', dr_color = ''green'', dr_highlight = ''none'' \<rparr>,
      \<lparr> dr_value = ''2'', dr_color = ''orange'', dr_highlight = ''high'' \<rparr>]"

definition exampleExternals :: externals where
  "exampleExternals =
     \<lparr> calculateAirtime = (\<lambda>payload sf bw cr mode preamble header ldro crc. real_of_int payload),
       getDataRates = (\<lambda>r. exampleCatalog),
       rangeFn = (\<lambda>start stop step.
         map (\<lambda>k. start + int k * step) [0..<nat ((stop - start + step - 1) div step)]) \<rparr>"

definition regionWithDwell :: Region where
  "regionWithDwell =
     \<lparr> spreadingFactors = [7, 8, 9, 10], bandwidths = [125, 500], loraMode = ''lora'',
       maxMacPayloadSize = 242, maxDwellTime = Some 500 \<rparr>"

definition regionWithoutDwell :: Region where
  "regionWithoutDwell = regionWithDwell\<lparr>maxDwellTime := None\<rparr>"

text \<open>Another region without a dwell time, with a smaller payload.\<close>

definition regionSmall :: Region where
  "regionSmall = regionWithoutDwell\<lparr>maxMacPayloadSize := 115\<rparr>"

definition exampleProps :: "Region obj \<Rightarrow> int \<Rightarrow> GraphProps" where
  "exampleProps r packetSize = \<lparr> p_region = r, p_selectedPacketSize = packetSize, p_codingRate = Some ''4/5'' \<rparr>"

text \<open>
  The state with the series of the example regions, after the user has hidden the second
  of them in the legend.
\<close>

definition exampleToggled :: graph_state where
  "exampleToggled =
     initialState\<lparr>data :=
       map (\<lambda>p. (series exampleExternals [] True ''4/5'' (Some 7) (Some 125) ''lora'' 5 247 p)
                 \<lparr>pd_visible := Some (if fst p = 1 then Legendonly else Shown True)\<rparr>)
         (enumerate 0 exampleCatalog)\<rparr>"

section \<open>Lemmas\<close>

subsection \<open>The helpers\<close>

lemma mergeAndTriggerRender_revision:
  "revision (mergeAndTriggerRender s u) = revision s + 1"
  by (simp add: mergeAndTriggerRender_def triggerRender_def Let_def)

lemma mergeAndTriggerRender_currentLayout:
  "currentLayout (mergeAndTriggerRender s u) = mergeLayout (currentLayout s) u"
  by (simp add: mergeAndTriggerRender_def triggerRender_def Let_def currentLayout_def)

lemma mergeAndTriggerRender_data: "data (mergeAndTriggerRender s u) = data s"
  by (simp add: mergeAndTriggerRender_def triggerRender_def Let_def)

lemma mergeAndTriggerRender_flags:
  "yAxisLogarithmic (mergeAndTriggerRender s u) = yAxisLogarithmic s"
  "xAxisFitFullRange (mergeAndTriggerRender s u) = xAxisFitFullRange s"
  by (simp_all add: mergeAndTriggerRender_def triggerRender_def Let_def)

lemma deleteOverlay_props:
  "layout (deleteOverlay s) = layout s"
  "heap (deleteOverlay s) =
     (heap s)(layout s := (currentLayout s)\<lparr>shapes := None, annotations := None\<rparr>)"
  "revision (deleteOverlay s) = revision s + 1"
  "data (deleteOverlay s) = data s"
  by (simp_all add: deleteOverlay_def triggerRender_def)


subsection \<open>Merging arrays and overlays\<close>

lemma mergeArray_Nil2: "mergeArray f cs [] = cs"
  by (cases cs) simp_all

lemma mergeArray_map: "mergeArray f xs (map g xs) = map (\<lambda>x. f x (g x)) xs"
  by (induction xs) simp_all

lemma mergeArray_single: "(\<And>c. f c u = u) \<Longrightarrow> mergeArray f cs [u] = u # tl cs"
  by (cases cs) (simp_all add: mergeArray_Nil2)

lemma mergeShape_dwell: "mergeShape c (dwellShape d) = dwellShape d"
  by (simp add: mergeShape_def dwellShape_def mergeVal_def)

lemma mergeAnnotation_dwell:
  "mergeAnnotation c (dwellAnnotation cur d) = dwellAnnotation cur d"
  by (simp add: mergeAnnotation_def dwellAnnotation_def mergeVal_def)

lemma shapes_merge_dwell:
  "shapes (mergeLayout cur (dwellUpdate cur d)) =
     Some (dwellShape d # (case shapes cur of None \<Rightarrow> [] | Some cs \<Rightarrow> tl cs))"
  by (cases "shapes cur")
     (simp_all add: mergeLayout_def dwellUpdate_def mergeObj_def mergeArray_single
        mergeShape_dwell)

lemma annotations_merge_dwell:
  "annotations (mergeLayout cur (dwellUpdate cur d)) =
     Some (dwellAnnotation cur d #
             (case annotations cur of None \<Rightarrow> [] | Some cs \<Rightarrow> tl cs))"
  by (cases "annotations cur")
     (simp_all add: mergeLayout_def dwellUpdate_def mergeObj_def mergeArray_single
        mergeAnnotation_dwell)

lemma mergeAnnotation_onlyY:
  "mergeAnnotation a (onlyY (map_option f (ann_y a))) = a\<lparr>ann_y := map_option f (ann_y a)\<rparr>"
  by (cases "ann_y a") (simp_all add: mergeAnnotation_def onlyY_def mergeVal_def)

lemma mergeLayout_yAxisUpdate_shapes:
  "shapes (mergeLayout cur (yAxisUpdate b cur)) = shapes cur"
  by (simp add: mergeLayout_def yAxisUpdate_def mergeObj_def)

lemma mergeLayout_yAxisUpdate_annotations:
  "annotations (mergeLayout cur (yAxisUpdate b cur)) =
     map_option (map (\<lambda>a. a\<lparr>ann_y := map_option (toLogarithmic b) (ann_y a)\<rparr>))
       (annotations cur)"
proof (cases "annotations cur")
  case None
  then show ?thesis by (simp add: mergeLayout_def yAxisUpdate_def mergeObj_def)
next
  case (Some anns)
  have "mergeArray mergeAnnotation anns
          (map (\<lambda>annotation. onlyY (map_option (toLogarithmic b) (ann_y annotation))) anns) =
        map (\<lambda>a. a\<lparr>ann_y := map_option (toLogarithmic b) (ann_y a)\<rparr>) anns"
    by (simp only: mergeArray_map mergeAnnotation_onlyY)
  with Some show ?thesis by (simp add: mergeLayout_def yAxisUpdate_def mergeObj_def)
qed

lemma xaxisRange_merge_fixed:
  "xaxisRangeOf (mergeLayout cur (xAxisUpdate False w cur)) = Some (xaxisFixedScaleRange w)"
  by (cases "xaxis cur")
     (simp_all add: xaxisRangeOf_def mergeLayout_def xAxisUpdate_def mergeObj_def mergeXAxis_def
        mergeVal_def emptyXAxis_def)

subsection \<open>updateGraph\<close>

lemma updateGraph_layout:
  "currentLayout (updateGraph ext pr pc s region cr sf bw mode oh mx) = currentLayout s"
  "layout (updateGraph ext pr pc s region cr sf bw mode oh mx) = layout s"
  "heap (updateGraph ext pr pc s region cr sf bw mode oh mx) = heap s"
  by (simp_all add: updateGraph_def currentLayout_def Let_def)

lemma updateGraph_data:
  "0 < mx \<Longrightarrow>
   data (updateGraph ext pr pc s region cr sf bw mode oh mx) =
     map (series ext (data s) (resetVisibleTraces cr pc region pr) cr sf bw mode oh mx)
       (enumerate 0 (getDataRates ext (valOf region)))"
  by (simp add: updateGraph_def Let_def)

lemma updateGraph_revision:
  "0 < mx \<Longrightarrow>
   revision (updateGraph ext pr pc s region cr sf bw mode oh mx) = revision s + 1"
  by (simp add: updateGraph_def Let_def)

lemma updateGraph_nth:
  assumes "0 < mx" and "i < length (getDataRates ext (valOf region))"
  shows "data (updateGraph ext pr pc s region cr sf bw mode oh mx) ! i =
     series ext (data s) (resetVisibleTraces cr pc region pr) cr sf bw mode oh mx
       (i, getDataRates ext (valOf region) ! i)"
  using assms by (simp add: updateGraph_data nth_enumerate_eq)

lemma series_visible:
  "pd_visible (series ext cur reset cr sf bw mode oh mx (i, dr)) =
     Some (if reset then configured dr
           else (case visibleAt cur i of Some v \<Rightarrow> v | None \<Rightarrow> configured dr))"
  by (simp add: series_def Let_def)

lemma series_name:
  "pd_name (series ext cur reset cr sf bw mode oh mx p) = ''DR'' @ dr_value (snd p)"
  by (cases p) (simp add: series_def Let_def)

lemma series_y:
  "pd_y (series ext cur reset cr sf bw mode oh mx p) =
     map (\<lambda>x. calculateAirtime ext (x + oh) sf bw cr mode 8 True False True)
       (rangeFn ext 0 mx 10)"
  by (cases p) (simp add: series_def Let_def)

lemma map_series_names:
  "map pd_name (map (series ext cur reset cr sf bw mode oh mx) (enumerate n drs)) =
     map (\<lambda>dr. ''DR'' @ dr_value dr) drs"
  by (induction drs arbitrary: n) (simp_all add: series_name)

lemma map_series_y:
  "map pd_y (map (series ext cur reset cr sf bw mode oh mx) (enumerate n drs)) =
     replicate (length drs)
       (map (\<lambda>x. calculateAirtime ext (x + oh) sf bw cr mode 8 True False True)
          (rangeFn ext 0 mx 10))"
  by (induction drs arbitrary: n) (simp_all add: series_y)

lemma map_series_visible_reset:
  "map pd_visible (map (series ext cur True cr sf bw mode oh mx) (enumerate n drs)) =
     map (\<lambda>dr. Some (configured dr)) drs"
  by (induction drs arbitrary: n) (simp_all add: series_visible)

text \<open>
  Recomputing without a reset on series that were computed for the same catalog, whatever
  visibilities they carry by now, gives the same series: every visibility is read back
  from the same index.
\<close>

lemma series_no_reset_read_back:
  assumes "visibleAt cur' i = Some v"
  shows "series ext cur' False cr sf bw mode oh mx (i, dr) =
         (series ext cur reset cr sf bw mode oh mx (i, dr))\<lparr>pd_visible := Some v\<rparr>"
  using assms by (simp add: series_def Let_def)

lemma visibleAt_map_enumerate_upd:
  "i < length xs \<Longrightarrow>
   visibleAt (map (\<lambda>p. (f p)\<lparr>pd_visible := Some (vis (fst p))\<rparr>) (enumerate 0 xs)) i =
     Some (vis i)"
  by (simp add: visibleAt_def nth_enumerate_eq)

lemma recompute_keeps_toggled:
  "map (series ext
          (map (\<lambda>p. (series ext cur reset cr sf bw mode oh mx p)
                       \<lparr>pd_visible := Some (vis (fst p))\<rparr>)
             (enumerate 0 drs))
          False cr sf bw mode oh mx) (enumerate 0 drs)
   = map (\<lambda>p. (series ext cur reset cr sf bw mode oh mx p)\<lparr>pd_visible := Some (vis (fst p))\<rparr>)
       (enumerate 0 drs)"
proof (rule map_cong[OF refl])
  fix p assume "p \<in> set (enumerate 0 drs)"
  then have "fst p < length drs" and "snd p = drs ! fst p"
    by (simp_all add: in_set_enumerate_eq)
  then obtain i where p: "p = (i, drs ! i)" and i: "i < length drs"
    by (cases p) simp
  show "series ext
          (map (\<lambda>p. (series ext cur reset cr sf bw mode oh mx p)
                       \<lparr>pd_visible := Some (vis (fst p))\<rparr>)
             (enumerate 0 drs))
          False cr sf bw mode oh mx p
      = (series ext cur reset cr sf bw mode oh mx p)\<lparr>pd_visible := Some (vis (fst p))\<rparr>"
    unfolding p fst_conv
    by (rule series_no_reset_read_back) (rule visibleAt_map_enumerate_upd[OF i])
qed

subsection \<open>The effects\<close>

lemma configEffect_idle:
  "\<not> truthyString (p_codingRate props) \<Longrightarrow> configEffect ext pr pc s props = s"
  by (simp add: configEffect_def)

lemma configEffect_create:
  assumes "truthyString (p_codingRate props)"
    and "truthyNumber (maxDwellTime (valOf (p_region props)))"
  shows "currentLayout (configEffect ext pr pc s props) =
     mergeLayout (currentLayout s)
       (dwellUpdate (currentLayout s) (the (maxDwellTime (valOf (p_region props)))))"
  using assms
  by (simp add: configEffect_def Let_def mergeAndTriggerRender_currentLayout updateGraph_layout)

lemma configEffect_delete:
  assumes "truthyString (p_codingRate props)"
    and "\<not> truthyNumber (maxDwellTime (valOf (p_region props)))"
    and "truthyNumber (prevMaxDwellTime pr)"
  shows "layout (configEffect ext pr pc s props) = layout s"
    and "heap (configEffect ext pr pc s props) =
     (heap s)(layout s := (currentLayout s)\<lparr>shapes := None, annotations := None\<rparr>)"
  using assms
  by (simp_all add: configEffect_def Let_def deleteOverlay_props updateGraph_layout)

lemma configEffect_data:
  assumes "truthyString (p_codingRate props)"
  shows "data (configEffect ext pr pc s props) =
     data (updateGraph ext pr pc s (p_region props) (the (p_codingRate props))
             (first (spreadingFactors (valOf (p_region props))))
             (first (bandwidths (valOf (p_region props))))
             (loraMode (valOf (p_region props))) 5
             (maxMacPayloadSize (valOf (p_region props)) + 5))"
  using assms
  by (simp add: configEffect_def Let_def mergeAndTriggerRender_data deleteOverlay_props)

lemma configEffect_revision:
  assumes "truthyString (p_codingRate props)"
  shows "revision (configEffect ext pr pc s props) =
     revision s
     + (if 0 < maxMacPayloadSize (valOf (p_region props)) + 5 then 1 else 0)
     + (if truthyNumber (maxDwellTime (valOf (p_region props)))
           \<or> truthyNumber (prevMaxDwellTime pr) then 1 else 0)"
  using assms
  by (simp add: configEffect_def Let_def mergeAndTriggerRender_revision deleteOverlay_props
        updateGraph_def)

lemma configEffect_revision_mono: "revision s \<le> revision (configEffect ext pr pc s props)"
  by (cases "truthyString (p_codingRate props)")
     (simp_all add: configEffect_revision configEffect_idle)

lemma toggleScale_layout:
  "currentLayout (toggleScale s) =
     mergeLayout (currentLayout s) (yAxisUpdate (\<not> yAxisLogarithmic s) (currentLayout s))"
  by (simp add: toggleScale_def yAxisEffect_def mergeAndTriggerRender_currentLayout)
     (simp add: currentLayout_def)


lemma toggleFitFullRange_flag:
  "xAxisFitFullRange (toggleFitFullRange w s) = (\<not> xAxisFitFullRange s)"
  by (simp add: toggleFitFullRange_def xAxisEffect_def mergeAndTriggerRender_flags)

lemma xAxisEffect_layout:
  "shapes (currentLayout (xAxisEffect w s)) = shapes (currentLayout s)"
  "annotations (currentLayout (xAxisEffect w s)) = annotations (currentLayout s)"
  by (simp_all add: xAxisEffect_def mergeAndTriggerRender_currentLayout mergeLayout_def
        xAxisUpdate_def mergeObj_def Let_def)

lemma yAxisEffect_layout:
  "shapes (currentLayout (yAxisEffect s)) = shapes (currentLayout s)"
  "annotations (currentLayout (yAxisEffect s)) =
     map_option (map (\<lambda>a. a\<lparr>ann_y := map_option (toLogarithmic (yAxisLogarithmic s)) (ann_y a)\<rparr>))
       (annotations (currentLayout s))"
  by (simp_all only: yAxisEffect_def mergeAndTriggerRender_currentLayout
        mergeLayout_yAxisUpdate_shapes mergeLayout_yAxisUpdate_annotations)

lemma effects_flag:
  "yAxisLogarithmic (xAxisEffect w s) = yAxisLogarithmic s"
  "yAxisLogarithmic (yAxisEffect s) = yAxisLogarithmic s"
  by (simp_all add: xAxisEffect_def yAxisEffect_def mergeAndTriggerRender_flags)

lemma effects_layout_ref:
  "layout (xAxisEffect w s) = nextAddr s"
  "layout (yAxisEffect s) = nextAddr s"
  by (simp_all add: xAxisEffect_def yAxisEffect_def mergeAndTriggerRender_def triggerRender_def
        Let_def)

lemma xaxis_merge_dwell: "xaxis (mergeLayout cur (dwellUpdate cur d)) = xaxis cur"
  by (simp add: mergeLayout_def dwellUpdate_def mergeObj_def)

lemma axes_merge_dwell: "yaxis (mergeLayout cur (dwellUpdate cur d)) = yaxis cur"
  by (simp add: mergeLayout_def dwellUpdate_def mergeObj_def)

lemma deleteOverlay_currentLayout:
  "currentLayout (deleteOverlay s) = (currentLayout s)\<lparr>shapes := None, annotations := None\<rparr>"
  by (simp add: deleteOverlay_def triggerRender_def currentLayout_def)

lemma xaxisRange_kept:
  "xaxisRangeOf (currentLayout (toggleScale s)) = xaxisRangeOf (currentLayout s)"
  "xaxisRangeOf (currentLayout (configEffect ext pr pc s props)) = xaxisRangeOf (currentLayout s)"
proof -
  show "xaxisRangeOf (currentLayout (toggleScale s)) = xaxisRangeOf (currentLayout s)"
    by (simp add: toggleScale_layout xaxisRangeOf_def mergeLayout_def yAxisUpdate_def mergeObj_def)
  show "xaxisRangeOf (currentLayout (configEffect ext pr pc s props)) =
      xaxisRangeOf (currentLayout s)"
    by (simp add: configEffect_def Let_def mergeAndTriggerRender_currentLayout updateGraph_layout
          xaxisRangeOf_def xaxis_merge_dwell deleteOverlay_currentLayout)
qed

text \<open>
  What a change of the props adds to the revision counter: the effect runs twice when the
  region is another object, once when only the coding rate or the packet size differ.
\<close>

lemma propsChange_region_revision:
  assumes cr: "truthyString (p_codingRate new)"
    and ne: "addrOf (p_region new) \<noteq> addrOf (p_region old)"
  shows "revision (propsChange ext s old new) =
     revision s
     + 2 * (if 0 < maxMacPayloadSize (valOf (p_region new)) + 5 then 1 else 0)
     + (if truthyNumber (maxDwellTime (valOf (p_region new)))
           \<or> truthyNumber (maxDwellTime (valOf (p_region old))) then 1 else 0)
     + (if truthyNumber (maxDwellTime (valOf (p_region new))) then 1 else 0)"
proof -
  let ?s1 = "configEffect ext (Some (p_region old)) (p_codingRate old) s new"
  have 1: "runConfigEffect ext (configEffectDeps old (Some (p_region old)))
             (Some (p_region old)) (p_codingRate old) s new = ?s1"
    using ne by (simp add: runConfigEffect_def configEffectDeps_def)
  have 2: "runConfigEffect ext (configEffectDeps new (Some (p_region old)))
             (Some (p_region new)) (p_codingRate new) ?s1 new =
           configEffect ext (Some (p_region new)) (p_codingRate new) ?s1 new"
    using ne by (simp add: runConfigEffect_def configEffectDeps_def)
  show ?thesis
    unfolding propsChange_def Let_def 1 2
    by (simp add: configEffect_revision[OF cr] prevMaxDwellTime_def)
qed

lemma propsChange_same_region_revision:
  assumes cr: "truthyString (p_codingRate new)"
    and same: "p_region new = p_region old"
    and ch: "p_codingRate new \<noteq> p_codingRate old
             \<or> p_selectedPacketSize new \<noteq> p_selectedPacketSize old"
  shows "revision (propsChange ext s old new) =
     revision s
     + (if 0 < maxMacPayloadSize (valOf (p_region new)) + 5 then 1 else 0)
     + (if truthyNumber (maxDwellTime (valOf (p_region new))) then 1 else 0)"
proof -
  let ?s1 = "configEffect ext (Some (p_region old)) (p_codingRate old) s new"
  have 1: "runConfigEffect ext (configEffectDeps old (Some (p_region old)))
             (Some (p_region old)) (p_codingRate old) s new = ?s1"
    using ch by (auto simp add: runConfigEffect_def configEffectDeps_def)
  have 2: "runConfigEffect ext (configEffectDeps new (Some (p_region old)))
             (Some (p_region new)) (p_codingRate new) ?s1 new = ?s1"
    using same by (simp add: runConfigEffect_def configEffectDeps_def)
  show ?thesis
    unfolding propsChange_def Let_def 1 2
    by (simp add: configEffect_revision[OF cr] prevMaxDwellTime_def same)
qed

lemma runConfigEffect_revision_mono:
  "revision s \<le> revision (runConfigEffect ext deps pr pc s props)"
  by (simp add: runConfigEffect_def configEffect_revision_mono)

lemma propsChange_revision_mono: "revision s \<le> revision (propsChange ext s old new)"
proof -
  let ?s1 = "runConfigEffect ext (configEffectDeps old (Some (p_region old)))
               (Some (p_region old)) (p_codingRate old) s new"
  have "revision s \<le> revision ?s1" by (rule runConfigEffect_revision_mono)
  also have "\<dots> \<le> revision (propsChange ext s old new)"
    unfolding propsChange_def Let_def by (rule runConfigEffect_revision_mono)
  finally show ?thesis .
qed

lemma react_revision_mono: "revision s \<le> revision (react ext s e)"
  by (cases e)
     (simp_all add: propsChange_revision_mono toggleScale_def
        yAxisEffect_def toggleFitFullRange_def runXAxisEffect_def xAxisEffect_def
        mergeAndTriggerRender_revision)

lemma foldl_react_revision_mono: "revision s \<le> revision (foldl (react ext) s evs)"
proof (induction evs arbitrary: s)
  case Nil
  show ?case by simp
next
  case (Cons e evs)
  have "revision s \<le> revision (react ext s e)" by (rule react_revision_mono)
  also have "\<dots> \<le> revision (foldl (react ext) (react ext s e) evs)" by (rule Cons.IH)
  finally show ?case by simp
qed

subsection \<open>The example\<close>

lemma initial_layout:
  "currentLayout initialState = initialLayout"
  "shapes initialLayout = None"
  "annotations initialLayout = None"
  "yaxisTypeOf initialLayout = None"
  by (simp_all add: initialState_def currentLayout_def initialLayout_def yaxisTypeOf_def)

lemma example_catalog:
  "getDataRates exampleExternals r = exampleCatalog"
  "length exampleCatalog = 3"
  by (simp_all add: exampleExternals_def exampleCatalog_def)

lemma example_props:
  "p_region (exampleProps r n) = r"
  "p_codingRate (exampleProps r n) = Some ''4/5''"
  "p_selectedPacketSize (exampleProps r n) = n"
  "(exampleProps r n)\<lparr>p_selectedPacketSize := m\<rparr> = exampleProps r m"
  by (simp_all add: exampleProps_def)

lemma example_truthy:
  "truthyString (p_codingRate (exampleProps r n))"
  "truthyNumber (maxDwellTime (valOf (p_region (exampleProps (Obj a regionWithDwell) n))))"
  "\<not> truthyNumber (maxDwellTime (valOf (p_region (exampleProps (Obj a regionWithoutDwell) n))))"
  "the (maxDwellTime (valOf (p_region (exampleProps (Obj a regionWithDwell) n)))) = 500"
  "truthyNumber (prevMaxDwellTime (Some (Obj a regionWithDwell)))"
  "\<not> truthyNumber (prevMaxDwellTime (Some (Obj a regionWithoutDwell)))"
  "\<not> truthyNumber (prevMaxDwellTime None)"
  "maxMacPayloadSize (valOf (p_region (exampleProps (Obj a regionWithDwell) n))) = 242"
  "maxMacPayloadSize (valOf (p_region (exampleProps (Obj a regionWithoutDwell) n))) = 242"
  by (simp_all add: exampleProps_def truthyString_def truthyNumber_def regionWithDwell_def
        regionWithoutDwell_def prevMaxDwellTime_def)

lemma example_regions:
  "\<not> truthyNumber (maxDwellTime regionSmall)"
  "maxMacPayloadSize regionSmall = 115"
  "\<not> truthyNumber (maxDwellTime regionWithoutDwell)"
  "maxMacPayloadSize regionWithoutDwell = 242"
  by (simp_all add: truthyNumber_def regionWithDwell_def regionWithoutDwell_def regionSmall_def)

lemma configEffect_flag:
  "yAxisLogarithmic (configEffect ext pr pc s props) = yAxisLogarithmic s"
  by (simp add: configEffect_def Let_def mergeAndTriggerRender_flags deleteOverlay_def
        triggerRender_def updateGraph_def)

lemma yaxisType_yAxisUpdate:
  "yaxisTypeOf (mergeLayout cur (yAxisUpdate b cur)) = Some (if b then ''log'' else ''linear'')"
  by (cases "yaxis cur")
     (simp_all add: yaxisTypeOf_def mergeLayout_def yAxisUpdate_def mergeObj_def mergeYAxis_def
        mergeVal_def emptyYAxis_def)

lemma yaxisType_effects:
  "yaxisTypeOf (currentLayout (yAxisEffect s)) =
     Some (if yAxisLogarithmic s then ''log'' else ''linear'')"
  "yaxisTypeOf (currentLayout (toggleScale s)) =
     Some (if yAxisLogarithmic s then ''linear'' else ''log'')"
  "yaxisTypeOf (currentLayout (xAxisEffect w s)) = yaxisTypeOf (currentLayout s)"
proof -
  show "yaxisTypeOf (currentLayout (yAxisEffect s)) =
     Some (if yAxisLogarithmic s then ''log'' else ''linear'')"
    by (simp only: yAxisEffect_def mergeAndTriggerRender_currentLayout yaxisType_yAxisUpdate)
  show "yaxisTypeOf (currentLayout (toggleScale s)) =
     Some (if yAxisLogarithmic s then ''linear'' else ''log'')"
    by (simp add: toggleScale_layout yaxisType_yAxisUpdate)
  show "yaxisTypeOf (currentLayout (xAxisEffect w s)) = yaxisTypeOf (currentLayout s)"
    by (simp add: xAxisEffect_def mergeAndTriggerRender_currentLayout yaxisTypeOf_def
          mergeLayout_def xAxisUpdate_def mergeObj_def Let_def)
qed

text \<open>
  The component mounted for the region with a dwell time of 500: the overlay is there, the
  axis is linear, and the counter stands at six (two runs of the first effect, each with a
  recomputation and a merge of the overlay, and one run of each of the other two).
\<close>

lemma mount_example_runs:
  "mount ext (exampleProps (Obj 10 regionWithDwell) 12) 970 =
     configEffect ext (Some (Obj 10 regionWithDwell)) (Some ''4/5'')
       (xAxisEffect 970 (yAxisEffect
          (configEffect ext None None initialState (exampleProps (Obj 10 regionWithDwell) 12))))
       (exampleProps (Obj 10 regionWithDwell) 12)"
  by (simp add: mount_def Let_def runConfigEffect_def configEffectDeps_def example_props)

lemma mount_example_overlay:
  "shapes (currentLayout (mount ext (exampleProps (Obj 10 regionWithDwell) 12) 970)) =
     Some [dwellShape 500]"
  "map_option (map ann_y)
     (annotations (currentLayout (mount ext (exampleProps (Obj 10 regionWithDwell) 12) 970))) =
     Some [Some 500]"
  "yAxisLogarithmic (mount ext (exampleProps (Obj 10 regionWithDwell) 12) 970) = False"
  "yaxisTypeOf (currentLayout (mount ext (exampleProps (Obj 10 regionWithDwell) 12) 970)) =
     Some ''linear''"
proof -
  let ?props = "exampleProps (Obj 10 regionWithDwell) 12"
  let ?c = "configEffect ext None None initialState ?props"
  let ?f = "xAxisEffect 970 (yAxisEffect ?c)"
  have L: "currentLayout ?c = mergeLayout initialLayout (dwellUpdate initialLayout 500)"
    using configEffect_create[OF example_truthy(1) example_truthy(2),
        of ext None None initialState 10 12]
    by (simp only: example_truthy(4) initial_layout)
  have f: "yAxisLogarithmic ?c = False"
    by (simp add: configEffect_flag initialState_def)
  have sh: "shapes (currentLayout ?f) = Some [dwellShape 500]"
    by (simp add: xAxisEffect_layout yAxisEffect_layout L shapes_merge_dwell initial_layout)
  have an: "annotations (currentLayout ?f) =
      Some [(dwellAnnotation initialLayout 500)
              \<lparr>ann_y := map_option (toLogarithmic False) (ann_y (dwellAnnotation initialLayout 500))\<rparr>]"
    by (simp add: xAxisEffect_layout yAxisEffect_layout L annotations_merge_dwell
          initial_layout f)
  have ty: "yaxisTypeOf (currentLayout ?f) = Some ''linear''"
    by (simp add: yaxisType_effects f)
  have M: "currentLayout (mount ext ?props 970) =
      mergeLayout (currentLayout ?f) (dwellUpdate (currentLayout ?f) 500)"
    unfolding mount_example_runs
    using configEffect_create[OF example_truthy(1) example_truthy(2),
        of ext "Some (Obj 10 regionWithDwell)" "Some ''4/5''" ?f 10 12]
    by (simp only: example_truthy(4))
  show "shapes (currentLayout (mount ext ?props 970)) = Some [dwellShape 500]"
    by (simp add: M shapes_merge_dwell sh)
  show "map_option (map ann_y) (annotations (currentLayout (mount ext ?props 970))) =
      Some [Some 500]"
    by (simp add: M annotations_merge_dwell an dwellAnnotation_def ty)
  show "yAxisLogarithmic (mount ext ?props 970) = False"
    by (simp add: mount_example_runs configEffect_flag effects_flag initialState_def)
  show "yaxisTypeOf (currentLayout (mount ext ?props 970)) = Some ''linear''"
    by (simp add: M yaxisTypeOf_def axes_merge_dwell) (simp add: ty[unfolded yaxisTypeOf_def])
qed

lemma mount_example_revision:
  "revision (mount ext (exampleProps (Obj 10 regionWithDwell) 12) 970) = 6"
  by (simp add: mount_example_runs configEffect_revision[OF example_truthy(1)] example_truthy
        xAxisEffect_def yAxisEffect_def mergeAndTriggerRender_revision initialState_def)


section \<open>The claims\<close>

subsection \<open>C1: the label after toggling to logarithmic and back\<close>


subsection \<open>C2: a change of the packet size alone\<close>

text \<open>
  Claim C2, as amended: the packet size is one of the effect's dependencies, so a change
  of the packet size alone runs the recomputation again. With a coding rate selected and a
  positive maximum payload size, and the current series being the ones computed for this
  region and coding rate (with whatever visibilities \<open>vis\<close> they carry by now), the
  recomputed series equal the current ones, whatever the new packet size is, and the
  revision counter grows.
\<close>

theorem packet_size_change_recomputes:
  assumes cr: "p_codingRate props = Some c" and ce: "c \<noteq> []"
    and mx: "0 < maxMacPayloadSize (valOf (p_region props)) + 5"
    and ne: "n \<noteq> p_selectedPacketSize props"
    and s: "data s =
       map (\<lambda>p. (series ext cur reset c
                    (first (spreadingFactors (valOf (p_region props))))
                    (first (bandwidths (valOf (p_region props))))
                    (loraMode (valOf (p_region props))) 5
                    (maxMacPayloadSize (valOf (p_region props)) + 5) p)
                 \<lparr>pd_visible := Some (vis (fst p))\<rparr>)
         (enumerate 0 (getDataRates ext (valOf (p_region props))))"
  shows "data (runConfigEffect ext (configEffectDeps props (Some (p_region props)))
                 (Some (p_region props)) (p_codingRate props) s
                 (props\<lparr>p_selectedPacketSize := n\<rparr>)) = data s
       \<and> revision s < revision (runConfigEffect ext
                 (configEffectDeps props (Some (p_region props)))
                 (Some (p_region props)) (p_codingRate props) s
                 (props\<lparr>p_selectedPacketSize := n\<rparr>))"
proof -
  let ?props' = "props\<lparr>p_selectedPacketSize := n\<rparr>"
  let ?pr' = "Some (p_region props)"
  have run: "runConfigEffect ext (configEffectDeps props ?pr') ?pr' (p_codingRate props) s ?props'
      = configEffect ext ?pr' (p_codingRate props) s ?props'"
    using ne by (simp add: runConfigEffect_def configEffectDeps_def)
  have cr': "truthyString (p_codingRate ?props')" using cr ce by (simp add: truthyString_def)
  have nr: "\<not> resetVisibleTraces c (Some c) (p_region props) ?pr'"
    by (simp add: resetVisibleTraces_def)
  have d1: "data (configEffect ext ?pr' (p_codingRate props) s ?props') =
          map (series ext (data s) False c
              (first (spreadingFactors (valOf (p_region props))))
              (first (bandwidths (valOf (p_region props))))
              (loraMode (valOf (p_region props))) 5
              (maxMacPayloadSize (valOf (p_region props)) + 5))
            (enumerate 0 (getDataRates ext (valOf (p_region props))))"
    using nr by (simp add: configEffect_data[OF cr'] updateGraph_data mx cr)
  have "data (configEffect ext ?pr' (p_codingRate props) s ?props') = data s"
    unfolding d1 by (subst (1 2) s) (rule recompute_keeps_toggled)
  moreover have "revision s < revision (configEffect ext ?pr' (p_codingRate props) s ?props')"
    using mx by (simp add: configEffect_revision[OF cr'])
  ultimately show ?thesis by (simp only: run simp_thms)
qed

text \<open>
  Witness for C2: the series of the example region, the second of them hidden by the
  user since; the packet size changes from 12 to 51.
\<close>

theorem packet_size_change_recomputes_witness:
  "data (runConfigEffect exampleExternals
           (configEffectDeps (exampleProps (Obj 10 regionWithoutDwell) 12)
              (Some (Obj 10 regionWithoutDwell)))
           (Some (Obj 10 regionWithoutDwell)) (Some ''4/5'') exampleToggled
           (exampleProps (Obj 10 regionWithoutDwell) 51))
     = data exampleToggled
   \<and> revision exampleToggled
     < revision (runConfigEffect exampleExternals
           (configEffectDeps (exampleProps (Obj 10 regionWithoutDwell) 12)
              (Some (Obj 10 regionWithoutDwell)))
           (Some (Obj 10 regionWithoutDwell)) (Some ''4/5'') exampleToggled
           (exampleProps (Obj 10 regionWithoutDwell) 51))"
proof -
  let ?props = "exampleProps (Obj 10 regionWithoutDwell) 12"
  have cr: "p_codingRate ?props = Some ''4/5''" by (rule example_props(2))
  have ce: "''4/5'' \<noteq> []" by simp
  have mx: "0 < maxMacPayloadSize (valOf (p_region ?props)) + 5"
    by (simp add: example_truthy)
  have ne: "51 \<noteq> p_selectedPacketSize ?props" by (simp add: example_props)
  have s: "data exampleToggled =
       map (\<lambda>p. (series exampleExternals [] True ''4/5''
                    (first (spreadingFactors (valOf (p_region ?props))))
                    (first (bandwidths (valOf (p_region ?props))))
                    (loraMode (valOf (p_region ?props))) 5
                    (maxMacPayloadSize (valOf (p_region ?props)) + 5) p)
                 \<lparr>pd_visible := Some ((\<lambda>i. if i = 1 then Legendonly else Shown True) (fst p))\<rparr>)
         (enumerate 0 (getDataRates exampleExternals (valOf (p_region ?props))))"
    by (simp add: exampleToggled_def example_props example_catalog regionWithoutDwell_def
          regionWithDwell_def first_def initialState_def)
  show ?thesis
    using packet_size_change_recomputes[OF cr ce mx ne s]
    by (simp only: example_props)
qed

text \<open>
  Counterexample to C2 as stated: in the same run the revision counter of the snapshot is
  not the one it was.
\<close>

theorem packet_size_change_counterexample:
  "\<not> (data (runConfigEffect exampleExternals
              (configEffectDeps (exampleProps (Obj 10 regionWithoutDwell) 12)
                 (Some (Obj 10 regionWithoutDwell)))
              (Some (Obj 10 regionWithoutDwell)) (Some ''4/5'')
              (configEffect exampleExternals None None initialState
                 (exampleProps (Obj 10 regionWithoutDwell) 12))
              (exampleProps (Obj 10 regionWithoutDwell) 51))
        = data (configEffect exampleExternals None None initialState
                 (exampleProps (Obj 10 regionWithoutDwell) 12))
      \<and> revision (runConfigEffect exampleExternals
              (configEffectDeps (exampleProps (Obj 10 regionWithoutDwell) 12)
                 (Some (Obj 10 regionWithoutDwell)))
              (Some (Obj 10 regionWithoutDwell)) (Some ''4/5'')
              (configEffect exampleExternals None None initialState
                 (exampleProps (Obj 10 regionWithoutDwell) 12))
              (exampleProps (Obj 10 regionWithoutDwell) 51))
        = revision (configEffect exampleExternals None None initialState
                 (exampleProps (Obj 10 regionWithoutDwell) 12)))"
proof -
  let ?s = "configEffect exampleExternals None None initialState
              (exampleProps (Obj 10 regionWithoutDwell) 12)"
  have "runConfigEffect exampleExternals
          (configEffectDeps (exampleProps (Obj 10 regionWithoutDwell) 12)
             (Some (Obj 10 regionWithoutDwell)))
          (Some (Obj 10 regionWithoutDwell)) (Some ''4/5'') ?s
          (exampleProps (Obj 10 regionWithoutDwell) 51)
        = configEffect exampleExternals (Some (Obj 10 regionWithoutDwell)) (Some ''4/5'') ?s
            (exampleProps (Obj 10 regionWithoutDwell) 51)"
    by (simp add: runConfigEffect_def configEffectDeps_def example_props)
  moreover have "revision (configEffect exampleExternals (Some (Obj 10 regionWithoutDwell))
                   (Some ''4/5'') ?s (exampleProps (Obj 10 regionWithoutDwell) 51))
               = revision ?s + 1"
    by (simp add: configEffect_revision[OF example_truthy(1)] example_truthy)
  ultimately show ?thesis by simp
qed

subsection \<open>C3: one series per data rate\<close>

text \<open>
  Claim C3 says: the recomputation produces one series per data rate of the catalog, in
  catalog order, and each series is that data rate's own airtime curve. The first half
  holds. For the second, the code computes the points of every series from the one
  spreading factor and the one bandwidth that \<open>updateGraph\<close> was called with: all series
  of a recomputation have the same \<open>y\<close> values.
\<close>

theorem updateGraph_series_share_one_curve:
  assumes "0 < mx"
  shows "length (data (updateGraph ext pr pc s region cr sf bw mode oh mx)) =
           length (getDataRates ext (valOf region))
       \<and> map pd_name (data (updateGraph ext pr pc s region cr sf bw mode oh mx)) =
           map (\<lambda>dr. ''DR'' @ dr_value dr) (getDataRates ext (valOf region))
       \<and> map pd_y (data (updateGraph ext pr pc s region cr sf bw mode oh mx)) =
           replicate (length (getDataRates ext (valOf region)))
             (map (\<lambda>x. calculateAirtime ext (x + oh) sf bw cr mode 8 True False True)
                (rangeFn ext 0 mx 10))"
  unfolding updateGraph_data[OF assms]
  by (simp only: map_series_names map_series_y length_map length_enumerate simp_thms)

text \<open>Witness for C3: the example catalog of three data rates.\<close>

theorem updateGraph_series_share_one_curve_witness:
  "(0::int) < 247
   \<and> map pd_name (data (updateGraph exampleExternals None None initialState
        (Obj 10 regionWithDwell) ''4/5'' (Some 7) (Some 125) ''lora'' 5 247)) =
       [''DR0'', ''DR1'', ''DR2'']
   \<and> map pd_y (data (updateGraph exampleExternals None None initialState
        (Obj 10 regionWithDwell) ''4/5'' (Some 7) (Some 125) ''lora'' 5 247)) =
       replicate 3 (map (\<lambda>x. calculateAirtime exampleExternals (x + 5) (Some 7) (Some 125)
          ''4/5'' ''lora'' 8 True False True) (rangeFn exampleExternals 0 247 10))"
proof -
  have h: "(0::int) < 247" by simp
  show ?thesis
    using h updateGraph_series_share_one_curve[OF h, of exampleExternals None None initialState
        "Obj 10 regionWithDwell" "''4/5''" "Some 7" "Some 125" "''lora''" 5]
    by (simp add: example_catalog) (simp add: exampleCatalog_def)
qed

subsection \<open>C4: when the visibilities are reset\<close>

text \<open>
  Claim C4, as amended: the reset trigger is true if and only if the coding rate is not
  the previous one (compared by value) or the region is not the very object of the
  previous render (compared by reference; in the first render there is no previous one).
  When it is true, a recomputation gives every series its configured default:
  legend-only for highlight \<open>low\<close>, visible otherwise.
\<close>

theorem reset_by_reference:
  "(resetVisibleTraces cr pc region pr \<longleftrightarrow>
      pc \<noteq> Some cr \<or> (case pr of None \<Rightarrow> True | Some p \<Rightarrow> addrOf p \<noteq> addrOf region))
   \<and> (0 < mx \<and> resetVisibleTraces cr pc region pr \<longrightarrow>
        map pd_visible (data (updateGraph ext pr pc s region cr sf bw mode oh mx)) =
          map (\<lambda>dr. Some (if dr_highlight dr = ''low'' then Legendonly else Shown True))
            (getDataRates ext (valOf region)))"
proof -
  have "resetVisibleTraces cr pc region pr \<longleftrightarrow>
      pc \<noteq> Some cr \<or> (case pr of None \<Rightarrow> True | Some p \<Rightarrow> addrOf p \<noteq> addrOf region)"
    by (cases pr) (auto simp add: resetVisibleTraces_def)
  moreover have "0 < mx \<and> resetVisibleTraces cr pc region pr \<longrightarrow>
        map pd_visible (data (updateGraph ext pr pc s region cr sf bw mode oh mx)) =
          map (\<lambda>dr. Some (if dr_highlight dr = ''low'' then Legendonly else Shown True))
            (getDataRates ext (valOf region))"
  proof (intro impI, elim conjE)
    assume mx: "0 < mx" and r: "resetVisibleTraces cr pc region pr"
    have "map pd_visible (data (updateGraph ext pr pc s region cr sf bw mode oh mx)) =
        map pd_visible (map (series ext (data s) True cr sf bw mode oh mx)
          (enumerate 0 (getDataRates ext (valOf region))))"
      by (simp only: updateGraph_data[OF mx] r)
    also have "\<dots> = map (\<lambda>dr. Some (configured dr)) (getDataRates ext (valOf region))"
      by (rule map_series_visible_reset)
    finally show "map pd_visible (data (updateGraph ext pr pc s region cr sf bw mode oh mx)) =
          map (\<lambda>dr. Some (if dr_highlight dr = ''low'' then Legendonly else Shown True))
            (getDataRates ext (valOf region))"
      by (simp add: configured_def)
  qed
  ultimately show ?thesis by (rule conjI)
qed

text \<open>
  Witness for C4: the coding rate changes from 4/5 to 4/6 on the same region object, and
  the user had hidden the second and shown the first series.
\<close>

theorem reset_by_reference_witness:
  "resetVisibleTraces ''4/6'' (Some ''4/5'') (Obj 10 regionWithDwell)
     (Some (Obj 10 regionWithDwell))
   \<and> map pd_visible (data (updateGraph exampleExternals (Some (Obj 10 regionWithDwell))
        (Some ''4/5'')
        (initialState\<lparr>data :=
           [series exampleExternals [] True ''4/5'' (Some 7) (Some 125) ''lora'' 5 247
              (0, exampleCatalog ! 0) \<lparr>pd_visible := Some (Shown True)\<rparr>,
            series exampleExternals [] True ''4/5'' (Some 7) (Some 125) ''lora'' 5 247
              (1, exampleCatalog ! 1) \<lparr>pd_visible := Some Legendonly\<rparr>]\<rparr>)
        (Obj 10 regionWithDwell) ''4/6'' (Some 7) (Some 125) ''lora'' 5 247)) =
       [Some Legendonly, Some (Shown True), Some (Shown True)]"
proof -
  let ?s = "initialState\<lparr>data :=
           [series exampleExternals [] True ''4/5'' (Some 7) (Some 125) ''lora'' 5 247
              (0, exampleCatalog ! 0) \<lparr>pd_visible := Some (Shown True)\<rparr>,
            series exampleExternals [] True ''4/5'' (Some 7) (Some 125) ''lora'' 5 247
              (1, exampleCatalog ! 1) \<lparr>pd_visible := Some Legendonly\<rparr>]\<rparr>"
  have r: "resetVisibleTraces ''4/6'' (Some ''4/5'') (Obj 10 regionWithDwell)
     (Some (Obj 10 regionWithDwell))"
    by (simp add: resetVisibleTraces_def)
  have h: "(0::int) < 247 \<and> resetVisibleTraces ''4/6'' (Some ''4/5'') (Obj 10 regionWithDwell)
     (Some (Obj 10 regionWithDwell))"
    using r by simp
  have "map pd_visible (data (updateGraph exampleExternals (Some (Obj 10 regionWithDwell))
        (Some ''4/5'') ?s (Obj 10 regionWithDwell) ''4/6'' (Some 7) (Some 125) ''lora'' 5 247)) =
      map (\<lambda>dr. Some (if dr_highlight dr = ''low'' then Legendonly else Shown True))
        (getDataRates exampleExternals (valOf (Obj 10 regionWithDwell)))"
    using reset_by_reference[of "''4/6''" "Some ''4/5''" "Obj 10 regionWithDwell"
        "Some (Obj 10 regionWithDwell)" 247 exampleExternals ?s "Some 7" "Some 125" "''lora''" 5] h
    by blast
  then show ?thesis using r by (simp add: example_catalog exampleCatalog_def)
qed

text \<open>
  Counterexample to C4 as stated: two region objects with the same contents and the same
  coding rate, and the reset is triggered.
\<close>

theorem reset_value_equality_counterexample:
  "\<not> (resetVisibleTraces ''4/5'' (Some ''4/5'') (Obj 11 regionWithDwell)
         (Some (Obj 10 regionWithDwell))
       \<longleftrightarrow> Some ''4/5'' \<noteq> Some ''4/5''
           \<or> Some (valOf (Obj 11 regionWithDwell)) \<noteq> map_option valOf (Some (Obj 10 regionWithDwell)))"
  by (simp add: resetVisibleTraces_def)

subsection \<open>C5: visibilities kept without a reset\<close>

text \<open>
  Claim C5: in a recomputation that is not a reset, the series at catalog index \<open>i\<close> keeps
  the visibility the previous series at index \<open>i\<close> has; where there is no previous series
  at \<open>i\<close> (or it carries no visibility) it gets the configured default, legend-only for a
  data rate of highlight \<open>low\<close> and visible otherwise. The recomputation is total and
  gives one series per data rate: an index past the previous series is no error.
\<close>

theorem visibility_kept_without_reset:
  assumes "0 < mx"
    and "\<not> resetVisibleTraces cr pc region pr"
    and "i < length (getDataRates ext (valOf region))"
  shows "(\<forall>v. i < length (data s) \<and> pd_visible (data s ! i) = Some v \<longrightarrow>
            pd_visible (data (updateGraph ext pr pc s region cr sf bw mode oh mx) ! i) = Some v)
       \<and> (length (data s) \<le> i \<or> (i < length (data s) \<and> pd_visible (data s ! i) = None) \<longrightarrow>
            pd_visible (data (updateGraph ext pr pc s region cr sf bw mode oh mx) ! i) =
              Some (if dr_highlight (getDataRates ext (valOf region) ! i) = ''low''
                    then Legendonly else Shown True))
       \<and> length (data (updateGraph ext pr pc s region cr sf bw mode oh mx)) =
           length (getDataRates ext (valOf region))"
proof -
  have "length (data (updateGraph ext pr pc s region cr sf bw mode oh mx)) =
      length (getDataRates ext (valOf region))"
    using assms(1) by (simp add: updateGraph_data)
  then show ?thesis
    using assms by (auto simp add: updateGraph_nth series_visible visibleAt_def configured_def)
qed

text \<open>
  Witness for C5, on the catalog of three (highlights \<open>low\<close>, \<open>none\<close>, \<open>high\<close>). With two
  previous series, shown and legend-only, the first stays shown (its default would be
  legend-only), the second stays legend-only (its default would be visible) and the third,
  which is new, gets its default, visible. With no previous series at all, the first falls
  back to legend-only, the default of a \<open>low\<close> data rate.
\<close>

theorem visibility_kept_without_reset_witness:
  "pd_visible (data (updateGraph exampleExternals (Some (Obj 10 regionWithDwell)) (Some ''4/5'')
      (initialState\<lparr>data :=
         [series exampleExternals [] True ''4/5'' (Some 7) (Some 125) ''lora'' 5 247
            (0, exampleCatalog ! 0) \<lparr>pd_visible := Some (Shown True)\<rparr>,
          series exampleExternals [] True ''4/5'' (Some 7) (Some 125) ''lora'' 5 247
            (1, exampleCatalog ! 1) \<lparr>pd_visible := Some Legendonly\<rparr>]\<rparr>)
      (Obj 10 regionWithDwell) ''4/5'' (Some 7) (Some 125) ''lora'' 5 247) ! 0) = Some (Shown True)
   \<and> pd_visible (data (updateGraph exampleExternals (Some (Obj 10 regionWithDwell)) (Some ''4/5'')
      (initialState\<lparr>data :=
         [series exampleExternals [] True ''4/5'' (Some 7) (Some 125) ''lora'' 5 247
            (0, exampleCatalog ! 0) \<lparr>pd_visible := Some (Shown True)\<rparr>,
          series exampleExternals [] True ''4/5'' (Some 7) (Some 125) ''lora'' 5 247
            (1, exampleCatalog ! 1) \<lparr>pd_visible := Some Legendonly\<rparr>]\<rparr>)
      (Obj 10 regionWithDwell) ''4/5'' (Some 7) (Some 125) ''lora'' 5 247) ! 1) = Some Legendonly
   \<and> pd_visible (data (updateGraph exampleExternals (Some (Obj 10 regionWithDwell)) (Some ''4/5'')
      (initialState\<lparr>data :=
         [series exampleExternals [] True ''4/5'' (Some 7) (Some 125) ''lora'' 5 247
            (0, exampleCatalog ! 0) \<lparr>pd_visible := Some (Shown True)\<rparr>,
          series exampleExternals [] True ''4/5'' (Some 7) (Some 125) ''lora'' 5 247
            (1, exampleCatalog ! 1) \<lparr>pd_visible := Some Legendonly\<rparr>]\<rparr>)
      (Obj 10 regionWithDwell) ''4/5'' (Some 7) (Some 125) ''lora'' 5 247) ! 2) = Some (Shown True)
   \<and> pd_visible (data (updateGraph exampleExternals (Some (Obj 10 regionWithDwell)) (Some ''4/5'')
      initialState (Obj 10 regionWithDwell) ''4/5'' (Some 7) (Some 125) ''lora'' 5 247) ! 0) =
       Some Legendonly
   \<and> dr_highlight (exampleCatalog ! 0) = ''low''"
proof -
  let ?s = "initialState\<lparr>data :=
         [series exampleExternals [] True ''4/5'' (Some 7) (Some 125) ''lora'' 5 247
            (0, exampleCatalog ! 0) \<lparr>pd_visible := Some (Shown True)\<rparr>,
          series exampleExternals [] True ''4/5'' (Some 7) (Some 125) ''lora'' 5 247
            (1, exampleCatalog ! 1) \<lparr>pd_visible := Some Legendonly\<rparr>]\<rparr>"
  have h: "(0::int) < 247" by simp
  have r: "\<not> resetVisibleTraces ''4/5'' (Some ''4/5'') (Obj 10 regionWithDwell)
              (Some (Obj 10 regionWithDwell))"
    by (simp add: resetVisibleTraces_def)
  have i0: "0 < length (getDataRates exampleExternals (valOf (Obj 10 regionWithDwell)))"
    and i1: "1 < length (getDataRates exampleExternals (valOf (Obj 10 regionWithDwell)))"
    and i2: "2 < length (getDataRates exampleExternals (valOf (Obj 10 regionWithDwell)))"
    by (simp_all add: example_catalog)
  have e: "data initialState = []" by (simp add: initialState_def)
  show ?thesis
    using visibility_kept_without_reset[OF h r i0, of ?s "Some 7" "Some 125" "''lora''" 5]
      visibility_kept_without_reset[OF h r i1, of ?s "Some 7" "Some 125" "''lora''" 5]
      visibility_kept_without_reset[OF h r i2, of ?s "Some 7" "Some 125" "''lora''" 5]
      visibility_kept_without_reset[OF h r i0, of initialState "Some 7" "Some 125" "''lora''" 5]
    by (simp add: example_catalog exampleCatalog_def e)
qed

subsection \<open>C6: the dwell overlay is created and removed\<close>

text \<open>
  Claim C6, as amended: for every run of the configuration effect with a coding rate
  selected, if the new region's \<open>maxDwellTime\<close> is present and not zero, the resulting
  layout holds the reference line (red, dash-dotted, of width 2 and opacity 0.2), from
  \<open>x = 0\<close> to \<open>x = 1\<close> of the paper with both \<open>y0\<close> and \<open>y1\<close> at that threshold, and the
  label \<open>max dwell time\<close> (red, opacity 0.4, no arrow, anchored at its bottom),
  right-aligned at \<open>x = 1\<close> of the paper, with its \<open>y\<close> at the threshold when the axis
  type is not \<open>log\<close> and at the base 10 logarithm of the (positive) threshold when it is; if the new region has none
  (or zero) while the region of the previous render had one, shapes and annotations are
  both absent from the resulting layout, and the removal deletes them from the current
  layout object in place: the same object stays the current one.
\<close>

theorem configEffect_overlay:
  assumes "truthyString (p_codingRate props)"
  shows "(truthyNumber (maxDwellTime (valOf (p_region props))) \<longrightarrow>
           (\<exists>sh shs a anns.
              shapes (currentLayout (configEffect ext pr pc s props)) = Some (sh # shs)
            \<and> shape_type sh = Some ''line''
            \<and> shape_x0 sh = Some 0 \<and> shape_x1 sh = Some 1 \<and> shape_xref sh = Some ''paper''
            \<and> shape_y0 sh = maxDwellTime (valOf (p_region props))
            \<and> shape_y1 sh = maxDwellTime (valOf (p_region props))
            \<and> shape_opacity sh = Some (1 / 5) \<and> shape_line_color sh = Some ''red''
            \<and> shape_line_width sh = Some 2 \<and> shape_line_dash sh = Some ''dashdot''
            \<and> annotations (currentLayout (configEffect ext pr pc s props)) = Some (a # anns)
            \<and> ann_text a = Some ''max dwell time''
            \<and> ann_x a = Some 1 \<and> ann_xref a = Some ''paper'' \<and> ann_xanchor a = Some ''right''
            \<and> ann_yanchor a = Some ''bottom'' \<and> ann_showarrow a = Some False
            \<and> ann_font_color a = Some ''red'' \<and> ann_opacity a = Some (2 / 5)
            \<and> (yaxisTypeOf (currentLayout s) \<noteq> Some ''log'' \<longrightarrow>
                  ann_y a = maxDwellTime (valOf (p_region props)))
            \<and> (\<forall>d. yaxisTypeOf (currentLayout s) = Some ''log''
                     \<and> maxDwellTime (valOf (p_region props)) = Some d \<and> 0 < d \<longrightarrow>
                  ann_y a = Some (log 10 d))))
       \<and> (\<not> truthyNumber (maxDwellTime (valOf (p_region props)))
            \<and> truthyNumber (prevMaxDwellTime pr) \<longrightarrow>
            shapes (currentLayout (configEffect ext pr pc s props)) = None
          \<and> annotations (currentLayout (configEffect ext pr pc s props)) = None
          \<and> layout (configEffect ext pr pc s props) = layout s
          \<and> heap (configEffect ext pr pc s props) =
              (heap s)(layout s := (currentLayout s)\<lparr>shapes := None, annotations := None\<rparr>))"
proof (intro conjI impI)
  assume d: "truthyNumber (maxDwellTime (valOf (p_region props)))"
  then obtain v where v: "maxDwellTime (valOf (p_region props)) = Some v"
    by (cases "maxDwellTime (valOf (p_region props))") (simp_all add: truthyNumber_def)
  let ?sh = "dwellShape v"
  let ?a = "dwellAnnotation (currentLayout s) v"
  have "shapes (currentLayout (configEffect ext pr pc s props)) =
          Some (?sh # (case shapes (currentLayout s) of None \<Rightarrow> [] | Some cs \<Rightarrow> tl cs))"
    and "annotations (currentLayout (configEffect ext pr pc s props)) =
          Some (?a # (case annotations (currentLayout s) of None \<Rightarrow> [] | Some cs \<Rightarrow> tl cs))"
    by (simp_all add: configEffect_create[OF assms d] shapes_merge_dwell annotations_merge_dwell v)
  moreover have "shape_type ?sh = Some ''line'' \<and> shape_x0 ?sh = Some 0 \<and> shape_x1 ?sh = Some 1
      \<and> shape_xref ?sh = Some ''paper'' \<and> shape_y0 ?sh = Some v \<and> shape_y1 ?sh = Some v
      \<and> shape_opacity ?sh = Some (1 / 5) \<and> shape_line_color ?sh = Some ''red''
      \<and> shape_line_width ?sh = Some 2 \<and> shape_line_dash ?sh = Some ''dashdot''"
    by (simp add: dwellShape_def)
  moreover have "ann_text ?a = Some ''max dwell time'' \<and> ann_x ?a = Some 1
      \<and> ann_xref ?a = Some ''paper'' \<and> ann_xanchor ?a = Some ''right''
      \<and> ann_yanchor ?a = Some ''bottom'' \<and> ann_showarrow ?a = Some False
      \<and> ann_font_color ?a = Some ''red'' \<and> ann_opacity ?a = Some (2 / 5)
      \<and> (yaxisTypeOf (currentLayout s) \<noteq> Some ''log'' \<longrightarrow> ann_y ?a = Some v)
      \<and> (yaxisTypeOf (currentLayout s) = Some ''log'' \<longrightarrow> ann_y ?a = Some (log 10 v))"
    by (simp add: dwellAnnotation_def toLogarithmic_def)
  ultimately show "\<exists>sh shs a anns.
              shapes (currentLayout (configEffect ext pr pc s props)) = Some (sh # shs)
            \<and> shape_type sh = Some ''line''
            \<and> shape_x0 sh = Some 0 \<and> shape_x1 sh = Some 1 \<and> shape_xref sh = Some ''paper''
            \<and> shape_y0 sh = maxDwellTime (valOf (p_region props))
            \<and> shape_y1 sh = maxDwellTime (valOf (p_region props))
            \<and> shape_opacity sh = Some (1 / 5) \<and> shape_line_color sh = Some ''red''
            \<and> shape_line_width sh = Some 2 \<and> shape_line_dash sh = Some ''dashdot''
            \<and> annotations (currentLayout (configEffect ext pr pc s props)) = Some (a # anns)
            \<and> ann_text a = Some ''max dwell time''
            \<and> ann_x a = Some 1 \<and> ann_xref a = Some ''paper'' \<and> ann_xanchor a = Some ''right''
            \<and> ann_yanchor a = Some ''bottom'' \<and> ann_showarrow a = Some False
            \<and> ann_font_color a = Some ''red'' \<and> ann_opacity a = Some (2 / 5)
            \<and> (yaxisTypeOf (currentLayout s) \<noteq> Some ''log'' \<longrightarrow>
                  ann_y a = maxDwellTime (valOf (p_region props)))
            \<and> (\<forall>d. yaxisTypeOf (currentLayout s) = Some ''log''
                     \<and> maxDwellTime (valOf (p_region props)) = Some d \<and> 0 < d \<longrightarrow>
                  ann_y a = Some (log 10 d))"
    unfolding v by (intro exI[of _ ?sh] exI[of _ ?a] exI) auto
next
  assume a: "\<not> truthyNumber (maxDwellTime (valOf (p_region props)))
            \<and> truthyNumber (prevMaxDwellTime pr)"
  note del = configEffect_delete[OF assms conjunct1[OF a] conjunct2[OF a], of ext pc s]
  show "shapes (currentLayout (configEffect ext pr pc s props)) = None"
    by (simp add: currentLayout_def del)
  show "annotations (currentLayout (configEffect ext pr pc s props)) = None"
    by (simp add: currentLayout_def del)
  show "layout (configEffect ext pr pc s props) = layout s" by (rule del(1))
  show "heap (configEffect ext pr pc s props) =
              (heap s)(layout s := (currentLayout s)\<lparr>shapes := None, annotations := None\<rparr>)"
    by (rule del(2))
qed

text \<open>
  Witness for C6: the first configuration for the region with a dwell time of 500, on the
  linear axis of the initial state (line from 500 to 500, label at 500) and on an axis
  that was switched to logarithmic before (line from 500 to 500, label at \<open>log10(500)\<close>);
  and then, on the mounted component, the change to the region without a dwell time.
\<close>

theorem configEffect_overlay_witness:
  "map_option (map (\<lambda>sh. (shape_y0 sh, shape_y1 sh)))
      (shapes (currentLayout (configEffect exampleExternals None None initialState
          (exampleProps (Obj 10 regionWithDwell) 12)))) = Some [(Some 500, Some 500)]
   \<and> map_option (map ann_y)
      (annotations (currentLayout (configEffect exampleExternals None None initialState
          (exampleProps (Obj 10 regionWithDwell) 12)))) = Some [Some 500]
   \<and> map_option (map (\<lambda>sh. (shape_y0 sh, shape_y1 sh)))
      (shapes (currentLayout (configEffect exampleExternals None None (toggleScale initialState)
          (exampleProps (Obj 10 regionWithDwell) 12)))) = Some [(Some 500, Some 500)]
   \<and> map_option (map ann_y)
      (annotations (currentLayout (configEffect exampleExternals None None
          (toggleScale initialState) (exampleProps (Obj 10 regionWithDwell) 12)))) =
       Some [Some (log 10 500)]
   \<and> shapes (currentLayout (configEffect exampleExternals (Some (Obj 10 regionWithDwell))
        (Some ''4/5'') (mount exampleExternals (exampleProps (Obj 10 regionWithDwell) 12) 970)
        (exampleProps (Obj 11 regionWithoutDwell) 12))) = None
   \<and> annotations (currentLayout (configEffect exampleExternals (Some (Obj 10 regionWithDwell))
        (Some ''4/5'') (mount exampleExternals (exampleProps (Obj 10 regionWithDwell) 12) 970)
        (exampleProps (Obj 11 regionWithoutDwell) 12))) = None"
proof -
  let ?props = "exampleProps (Obj 10 regionWithDwell) 12"
  have dw: "maxDwellTime (valOf (p_region ?props)) = Some 500"
    by (simp add: exampleProps_def regionWithDwell_def)
  have lin: "yaxisTypeOf (currentLayout initialState) \<noteq> Some ''log''"
    by (simp add: initial_layout)
  have lg: "yaxisTypeOf (currentLayout (toggleScale initialState)) = Some ''log''"
    by (simp add: yaxisType_effects initialState_def)
  have s0: "shapes (currentLayout initialState) = None"
    "annotations (currentLayout initialState) = None"
    by (simp_all add: initial_layout)
  have s1: "shapes (currentLayout (toggleScale initialState)) = None"
    "annotations (currentLayout (toggleScale initialState)) = None"
    by (simp_all add: toggleScale_layout mergeLayout_yAxisUpdate_shapes
          mergeLayout_yAxisUpdate_annotations initial_layout)
  have len0: "shapes (currentLayout (configEffect exampleExternals None None initialState ?props))
        = Some [dwellShape 500]
      \<and> (\<exists>a. annotations (currentLayout (configEffect exampleExternals None None initialState
            ?props)) = Some [a])"
    by (simp add: configEffect_create[OF example_truthy(1) example_truthy(2)] example_truthy(4)
          shapes_merge_dwell annotations_merge_dwell s0)
  have len1: "shapes (currentLayout (configEffect exampleExternals None None
          (toggleScale initialState) ?props)) = Some [dwellShape 500]
      \<and> (\<exists>a. annotations (currentLayout (configEffect exampleExternals None None
            (toggleScale initialState) ?props)) = Some [a])"
    by (simp add: configEffect_create[OF example_truthy(1) example_truthy(2)] example_truthy(4)
          shapes_merge_dwell annotations_merge_dwell s1)
  have 1: "map_option (map (\<lambda>sh. (shape_y0 sh, shape_y1 sh)))
      (shapes (currentLayout (configEffect exampleExternals None None initialState ?props))) =
        Some [(Some 500, Some 500)]
   \<and> map_option (map ann_y)
      (annotations (currentLayout (configEffect exampleExternals None None initialState ?props))) =
        Some [Some 500]"
    using configEffect_overlay[where props = ?props and ext = exampleExternals and pr = None
        and pc = None and s = initialState, OF example_truthy(1)]
      example_truthy(2)[of 10 12] lin len0
    by (auto simp add: dw)
  have 2: "map_option (map (\<lambda>sh. (shape_y0 sh, shape_y1 sh)))
      (shapes (currentLayout (configEffect exampleExternals None None (toggleScale initialState)
         ?props))) = Some [(Some 500, Some 500)]
   \<and> map_option (map ann_y)
      (annotations (currentLayout (configEffect exampleExternals None None
         (toggleScale initialState) ?props))) = Some [Some (log 10 500)]"
    using configEffect_overlay[where props = ?props and ext = exampleExternals and pr = None
        and pc = None and s = "toggleScale initialState", OF example_truthy(1)]
      example_truthy(2)[of 10 12] lg len1
    by (auto simp add: dw)
  have 3: "shapes (currentLayout (configEffect exampleExternals (Some (Obj 10 regionWithDwell))
        (Some ''4/5'') (mount exampleExternals (exampleProps (Obj 10 regionWithDwell) 12) 970)
        (exampleProps (Obj 11 regionWithoutDwell) 12))) = None
   \<and> annotations (currentLayout (configEffect exampleExternals (Some (Obj 10 regionWithDwell))
        (Some ''4/5'') (mount exampleExternals (exampleProps (Obj 10 regionWithDwell) 12) 970)
        (exampleProps (Obj 11 regionWithoutDwell) 12))) = None"
    using configEffect_overlay[where props = "exampleProps (Obj 11 regionWithoutDwell) 12"
        and ext = exampleExternals and pr = "Some (Obj 10 regionWithDwell)"
        and pc = "Some ''4/5''"
        and s = "mount exampleExternals (exampleProps (Obj 10 regionWithDwell) 12) 970",
        OF example_truthy(1)]
      example_truthy(3)[of 11 12] example_truthy(5)[of 10]
    by blast
  from 1 2 3 show ?thesis by simp
qed

text \<open>
  Counterexample to C6 as stated: after the change to the region without a dwell time the
  current layout is still the object that was current before, and that object, which had
  the line, has lost it.
\<close>

theorem overlay_removed_in_place_counterexample:
  "layout (configEffect exampleExternals (Some (Obj 10 regionWithDwell)) (Some ''4/5'')
      (mount exampleExternals (exampleProps (Obj 10 regionWithDwell) 12) 970)
      (exampleProps (Obj 11 regionWithoutDwell) 12))
     = layout (mount exampleExternals (exampleProps (Obj 10 regionWithDwell) 12) 970)
   \<and> shapes (heap (mount exampleExternals (exampleProps (Obj 10 regionWithDwell) 12) 970)
        (layout (mount exampleExternals (exampleProps (Obj 10 regionWithDwell) 12) 970)))
     = Some [dwellShape 500]
   \<and> shapes (heap (configEffect exampleExternals (Some (Obj 10 regionWithDwell)) (Some ''4/5'')
        (mount exampleExternals (exampleProps (Obj 10 regionWithDwell) 12) 970)
        (exampleProps (Obj 11 regionWithoutDwell) 12))
        (layout (mount exampleExternals (exampleProps (Obj 10 regionWithDwell) 12) 970)))
     = None"
proof -
  let ?s0 = "mount exampleExternals (exampleProps (Obj 10 regionWithDwell) 12) 970"
  note del = configEffect_delete[OF example_truthy(1) example_truthy(3) example_truthy(5),
      of exampleExternals 10 "Some ''4/5''" ?s0 11 12]
  have "shapes (heap ?s0 (layout ?s0)) = Some [dwellShape 500]"
    using mount_example_overlay(1)[of exampleExternals] by (simp add: currentLayout_def)
  then show ?thesis by (simp add: del)
qed

subsection \<open>C7: the overlay when the vertical scale flips\<close>


subsection \<open>C8: the revision counter\<close>

text \<open>
  Claim C8, as amended: every accepted mutation strictly increases the revision counter
  and nothing the component reacts to decreases it. Every run of a series recomputation
  adds exactly one, and so do, through \<open>triggerRender\<close>, every creation or removal of the
  overlay, either toggle and a resize. One logical change is not one increment, though. A
  change of the region runs the effect twice, since \<open>prevRegion\<close> is one of its
  dependencies: that adds two for the two recomputations, one more when the first run
  creates or removes the overlay and one more when the second merges the overlay again. A
  change of the coding rate or of the packet size on the same region runs it once: one for
  the recomputation and one more when the region has a dwell time.
\<close>

theorem revision_increments:
  "(0 < mx \<longrightarrow> revision (updateGraph ext pr pc s region cr sf bw mode oh mx) = revision s + 1)
   \<and> (truthyString (p_codingRate new) \<and> addrOf (p_region new) \<noteq> addrOf (p_region old) \<longrightarrow>
        revision (propsChange ext s old new) =
          revision s
          + 2 * (if 0 < maxMacPayloadSize (valOf (p_region new)) + 5 then 1 else 0)
          + (if truthyNumber (maxDwellTime (valOf (p_region new)))
                \<or> truthyNumber (maxDwellTime (valOf (p_region old))) then 1 else 0)
          + (if truthyNumber (maxDwellTime (valOf (p_region new))) then 1 else 0))
   \<and> (truthyString (p_codingRate new) \<and> p_region new = p_region old
        \<and> (p_codingRate new \<noteq> p_codingRate old
             \<or> p_selectedPacketSize new \<noteq> p_selectedPacketSize old) \<longrightarrow>
        revision (propsChange ext s old new) =
          revision s
          + (if 0 < maxMacPayloadSize (valOf (p_region new)) + 5 then 1 else 0)
          + (if truthyNumber (maxDwellTime (valOf (p_region new))) then 1 else 0))
   \<and> revision (mergeAndTriggerRender s (dwellUpdate (currentLayout s) d)) = revision s + 1
   \<and> revision (deleteOverlay s) = revision s + 1
   \<and> revision (toggleScale s) = revision s + 1
   \<and> revision (toggleFitFullRange w s) = revision s + 1
   \<and> revision (xAxisEffect w s) = revision s + 1
   \<and> revision s \<le> revision (foldl (react ext) s evs)"
proof -
  have "truthyString (p_codingRate new) \<and> addrOf (p_region new) \<noteq> addrOf (p_region old) \<longrightarrow>
        revision (propsChange ext s old new) =
          revision s
          + 2 * (if 0 < maxMacPayloadSize (valOf (p_region new)) + 5 then 1 else 0)
          + (if truthyNumber (maxDwellTime (valOf (p_region new)))
                \<or> truthyNumber (maxDwellTime (valOf (p_region old))) then 1 else 0)
          + (if truthyNumber (maxDwellTime (valOf (p_region new))) then 1 else 0)"
    using propsChange_region_revision[of new old ext s] by blast
  moreover have "truthyString (p_codingRate new) \<and> p_region new = p_region old
        \<and> (p_codingRate new \<noteq> p_codingRate old
             \<or> p_selectedPacketSize new \<noteq> p_selectedPacketSize old) \<longrightarrow>
        revision (propsChange ext s old new) =
          revision s
          + (if 0 < maxMacPayloadSize (valOf (p_region new)) + 5 then 1 else 0)
          + (if truthyNumber (maxDwellTime (valOf (p_region new))) then 1 else 0)"
    using propsChange_same_region_revision[of new old ext s] by blast
  moreover have "0 < mx \<longrightarrow>
      revision (updateGraph ext pr pc s region cr sf bw mode oh mx) = revision s + 1"
    by (simp add: updateGraph_revision)
  moreover have "revision (mergeAndTriggerRender s (dwellUpdate (currentLayout s) d)) =
        revision s + 1
      \<and> revision (deleteOverlay s) = revision s + 1
      \<and> revision (toggleScale s) = revision s + 1
      \<and> revision (toggleFitFullRange w s) = revision s + 1
      \<and> revision (xAxisEffect w s) = revision s + 1"
    by (simp add: mergeAndTriggerRender_revision deleteOverlay_props toggleScale_def
          yAxisEffect_def toggleFitFullRange_def xAxisEffect_def)
  moreover have "revision s \<le> revision (foldl (react ext) s evs)"
    by (rule foldl_react_revision_mono)
  ultimately show ?thesis by blast
qed

text \<open>
  Witness for C8: a recomputation alone; a change from one region without a dwell time to
  another, which adds two; and a change of the packet size on the same region, which adds
  one.
\<close>

theorem revision_increments_witness:
  "revision (updateGraph exampleExternals None None initialState (Obj 10 regionWithoutDwell)
      ''4/5'' (Some 7) (Some 125) ''lora'' 5 247) = revision initialState + 1
   \<and> revision (propsChange exampleExternals
        (mount exampleExternals (exampleProps (Obj 10 regionWithoutDwell) 12) 970)
        (exampleProps (Obj 10 regionWithoutDwell) 12) (exampleProps (Obj 11 regionSmall) 12)) =
       revision (mount exampleExternals (exampleProps (Obj 10 regionWithoutDwell) 12) 970) + 2
   \<and> revision (propsChange exampleExternals
        (mount exampleExternals (exampleProps (Obj 10 regionWithoutDwell) 12) 970)
        (exampleProps (Obj 10 regionWithoutDwell) 12)
        (exampleProps (Obj 10 regionWithoutDwell) 51)) =
       revision (mount exampleExternals (exampleProps (Obj 10 regionWithoutDwell) 12) 970) + 1"
proof -
  let ?s = "mount exampleExternals (exampleProps (Obj 10 regionWithoutDwell) 12) 970"
  let ?old = "exampleProps (Obj 10 regionWithoutDwell) 12"
  let ?small = "exampleProps (Obj 11 regionSmall) 12"
  let ?sized = "exampleProps (Obj 10 regionWithoutDwell) 51"
  have "(0::int) < 247 \<longrightarrow>
      revision (updateGraph exampleExternals None None initialState
        (Obj 10 regionWithoutDwell) ''4/5'' (Some 7) (Some 125) ''lora'' 5 247) =
      revision initialState + 1"
    by (rule conjunct1[OF revision_increments])
  then have 1: "revision (updateGraph exampleExternals None None initialState
      (Obj 10 regionWithoutDwell) ''4/5'' (Some 7) (Some 125) ''lora'' 5 247) =
      revision initialState + 1"
    by simp
  have "truthyString (p_codingRate ?small) \<and> addrOf (p_region ?small) \<noteq> addrOf (p_region ?old)
      \<longrightarrow> revision (propsChange exampleExternals ?s ?old ?small) =
          revision ?s
          + 2 * (if 0 < maxMacPayloadSize (valOf (p_region ?small)) + 5 then 1 else 0)
          + (if truthyNumber (maxDwellTime (valOf (p_region ?small)))
                \<or> truthyNumber (maxDwellTime (valOf (p_region ?old))) then 1 else 0)
          + (if truthyNumber (maxDwellTime (valOf (p_region ?small))) then 1 else 0)"
    by (rule conjunct1[OF conjunct2[OF revision_increments]])
  then have 2: "revision (propsChange exampleExternals ?s ?old ?small) = revision ?s + 2"
    by (simp add: example_props example_regions truthyString_def)
  have "truthyString (p_codingRate ?sized) \<and> p_region ?sized = p_region ?old
        \<and> (p_codingRate ?sized \<noteq> p_codingRate ?old
             \<or> p_selectedPacketSize ?sized \<noteq> p_selectedPacketSize ?old)
      \<longrightarrow> revision (propsChange exampleExternals ?s ?old ?sized) =
          revision ?s
          + (if 0 < maxMacPayloadSize (valOf (p_region ?sized)) + 5 then 1 else 0)
          + (if truthyNumber (maxDwellTime (valOf (p_region ?sized))) then 1 else 0)"
    by (rule conjunct1[OF conjunct2[OF conjunct2[OF revision_increments]]])
  then have 3: "revision (propsChange exampleExternals ?s ?old ?sized) = revision ?s + 1"
    by (simp add: example_props example_regions truthyString_def)
  from 1 2 3 show ?thesis by simp
qed

text \<open>
  Counterexample to C8 as stated: the one change from a region without a dwell time to
  another does not increment the counter exactly once. Both increments are those of
  \<open>setRevision\<close> in \<open>updateGraph\<close>; no overlay is involved.
\<close>

theorem revision_twice_counterexample:
  "revision (propsChange exampleExternals
      (mount exampleExternals (exampleProps (Obj 10 regionWithoutDwell) 12) 970)
      (exampleProps (Obj 10 regionWithoutDwell) 12) (exampleProps (Obj 11 regionSmall) 12))
   \<noteq> revision (mount exampleExternals (exampleProps (Obj 10 regionWithoutDwell) 12) 970) + 1"
proof -
  have "revision (propsChange exampleExternals
      (mount exampleExternals (exampleProps (Obj 10 regionWithoutDwell) 12) 970)
      (exampleProps (Obj 10 regionWithoutDwell) 12) (exampleProps (Obj 11 regionSmall) 12))
    = revision (mount exampleExternals (exampleProps (Obj 10 regionWithoutDwell) 12) 970) + 2"
    by (subst propsChange_region_revision)
       (simp_all add: example_props example_regions truthyString_def)
  then show ?thesis by simp
qed

subsection \<open>C9: a maximum payload size that is not positive\<close>

text \<open>
  Claim C9: called with \<open>maxPayloadSize \<le> 0\<close>, \<open>updateGraph\<close> does nothing: the state
  after is the state before, so no series are produced, the data and the revision are
  what they were, and there is no error to return.
\<close>

theorem updateGraph_nonpositive_noop:
  "maxPayloadSize \<le> 0 \<Longrightarrow>
   updateGraph ext prevRegion prevCodingRate s region codingRate spreadingFactor bandwidth mode
     overhead maxPayloadSize = s"
  by (simp add: updateGraph_def)

text \<open>Witness for C9: a maximum payload size of -5.\<close>

theorem updateGraph_nonpositive_noop_witness:
  "(-5::int) \<le> 0 \<and>
   updateGraph exampleExternals None None initialState (Obj 10 regionWithDwell) ''4/5''
     (Some 7) (Some 125) ''lora'' 5 (-5) = initialState"
  using updateGraph_nonpositive_noop[of "-5" exampleExternals None None initialState
      "Obj 10 regionWithDwell" "''4/5''" "Some 7" "Some 125" "''lora''" 5]
  by simp

subsection \<open>C10: the horizontal range in fixed-scale mode\<close>

text \<open>
  Claim C10: in fixed-scale mode (\<open>xAxisFitFullRange\<close> false) the effect sets the
  horizontal range to \<open>[0, (windowWidth - 312) / 6]\<close>, for every window width; it runs
  whenever the window width is not the one of its last run, and when the mode is switched
  to fixed scale. The other effects leave the range as it is.
\<close>

theorem fixed_scale_range:
  "(\<not> xAxisFitFullRange s \<longrightarrow>
      xaxisRangeOf (currentLayout (xAxisEffect w s)) = Some (0, (w - 312) / 6))
   \<and> (\<not> xAxisFitFullRange s \<and> w \<noteq> w0 \<longrightarrow>
        xaxisRangeOf (currentLayout (runXAxisEffect (w0, xAxisFitFullRange s) w s)) =
          Some (0, (w - 312) / 6))
   \<and> (xAxisFitFullRange s \<longrightarrow>
        xaxisRangeOf (currentLayout (toggleFitFullRange w s)) = Some (0, (w - 312) / 6))
   \<and> xaxisRangeOf (currentLayout (toggleScale s)) = xaxisRangeOf (currentLayout s)
   \<and> xaxisRangeOf (currentLayout (configEffect ext pr pc s props)) =
       xaxisRangeOf (currentLayout s)"
  by (simp add: runXAxisEffect_def xAxisEffect_def toggleFitFullRange_def
        mergeAndTriggerRender_currentLayout xaxisRange_merge_fixed xaxisFixedScaleRange_def
        xaxisRange_kept)

text \<open>
  Witness for C10: a window width of 970 gives the range from 0 to 658 / 6, that is
  329 / 3, when the width changes in fixed-scale mode and when the mode is switched to
  fixed scale.
\<close>

theorem fixed_scale_range_witness:
  "\<not> xAxisFitFullRange (toggleFitFullRange 1200 initialState)
   \<and> xaxisRangeOf (currentLayout (xAxisEffect 970 (toggleFitFullRange 1200 initialState))) =
       Some (0, 329 / 3)
   \<and> xaxisRangeOf (currentLayout (runXAxisEffect (1200, False) 970
         (toggleFitFullRange 1200 initialState))) = Some (0, 329 / 3)
   \<and> xAxisFitFullRange initialState
   \<and> xaxisRangeOf (currentLayout (toggleFitFullRange 970 initialState)) = Some (0, 329 / 3)"
proof -
  have h: "\<not> xAxisFitFullRange (toggleFitFullRange 1200 initialState)"
    by (simp add: toggleFitFullRange_flag initialState_def)
  have i: "xAxisFitFullRange initialState" by (simp add: initialState_def)
  show ?thesis
    using h i fixed_scale_range[of "toggleFitFullRange 1200 initialState" 970 1200]
      fixed_scale_range[of initialState 970] by simp
qed

end
